theory Spec2Isabelle
  imports Complex_Main
begin

section \<open>Typed errors (src/src/errors.ts)\<close>

text \<open>The closed union \<open>ErrorCode\<close> of errors.ts.\<close>

datatype ErrorCode =
    INVALID_API_KEY
  | JOB_NOT_FOUND
  | RATE_LIMITED
  | SERVER_ERROR
  | INVALID_RESPONSE
  | NETWORK_ERROR
  | TIMEOUT

text \<open>
  Parsed JSON, as \<open>JSON.parse\<close> returns it. An object is the list of its own
  properties, one entry per key; \<open>None\<close> stands for JavaScript's \<open>undefined\<close>
  wherever a property is read.
\<close>

datatype json =
    JNull
  | JBool bool
  | JNumber real
  | JString string
  | JArray "json list"
  | JObject "(string \<times> json) list"

text \<open>
  A thrown JavaScript value that is not a \<open>BearWatchError\<close>, with what the code
  observes of it: \<open>instanceof Error\<close>, \<open>instanceof TypeError\<close> and \<open>.name\<close>.
\<close>

record js_value =
  is_Error :: bool
  is_TypeError :: bool
  err_name :: string
  err_message :: string

record ErrorContext =
  jobId :: "string option"
  runId :: "string option"
  operation :: "string option"

text \<open>
  The message of an error. The template literals of the source are kept symbolic:
  \<open>Server_error s\<close> is \<open>`Server error (${s})`\<close>, \<open>Request_failed_with_status s\<close>
  is \<open>`Request failed with status ${s}`\<close>, \<open>Timed_out_after t\<close> is
  \<open>`Request timed out after ${t}ms`\<close>, and \<open>ToString v\<close> is the string coercion
  the \<open>Error\<close> constructor applies to a message that is not a string.
\<close>

datatype message =
    Text string
  | Server_error int
  | Request_failed_with_status int
  | Timed_out_after int
  | ToString json

text \<open>
  Class \<open>BearWatchError\<close>, with the optional \<open>retryAfter\<close> of
  \<open>BearWatchErrorWithRetry\<close> (retry.ts); \<open>None\<close> is an absent field.
\<close>

record BearWatchError =
  msg :: message
  code :: ErrorCode
  statusCode :: "int option"
  responseBody :: "string option"
  err_context :: "ErrorContext option"
  cause :: "js_value option"
  retryAfter :: "string option"

text \<open>Whatever a rejected promise carries: an SDK error, any other value, or \<open>undefined\<close>.\<close>

datatype thrown =
    Sdk BearWatchError
  | Foreign js_value
  | Undefined

text \<open>The string literals of the union \<open>ErrorCode\<close>.\<close>

definition known_code :: "string \<Rightarrow> ErrorCode option" where
  "known_code s =
     (if s = ''INVALID_API_KEY'' then Some INVALID_API_KEY
      else if s = ''JOB_NOT_FOUND'' then Some JOB_NOT_FOUND
      else if s = ''RATE_LIMITED'' then Some RATE_LIMITED
      else if s = ''SERVER_ERROR'' then Some SERVER_ERROR
      else if s = ''INVALID_RESPONSE'' then Some INVALID_RESPONSE
      else if s = ''NETWORK_ERROR'' then Some NETWORK_ERROR
      else if s = ''TIMEOUT'' then Some TIMEOUT
      else None)"

text \<open>
  Reading property \<open>k\<close> of a value that is not \<open>null\<close>. Only the keys
  \<open>error\<close>, \<open>code\<close>, \<open>message\<close>, \<open>success\<close> and \<open>data\<close> are ever read, and
  no primitive or array has one of them. Reading a property of \<open>null\<close> raises a
  \<open>TypeError\<close>; every caller below decides that case itself.
\<close>

fun get_prop :: "json \<Rightarrow> string \<Rightarrow> json option" where
  "get_prop (JObject kvs) k = map_of kvs k"
| "get_prop _ k = None"

text \<open>Optional chaining \<open>v?.k\<close>: \<open>undefined\<close> and \<open>null\<close> give \<open>undefined\<close>.\<close>

fun opt_chain :: "json option \<Rightarrow> string \<Rightarrow> json option" where
  "opt_chain None k = None"
| "opt_chain (Some JNull) k = None"
| "opt_chain (Some v) k = get_prop v k"

text \<open>\<open>mapStatusToErrorCode(status, body)\<close>, errors.ts lines 79-103.\<close>

definition mapStatusToErrorCode :: "int \<Rightarrow> json option \<Rightarrow> ErrorCode" where
  "mapStatusToErrorCode status body =
     (if status = 401 then INVALID_API_KEY
      else if status = 404 then JOB_NOT_FOUND
      else if status = 429 then RATE_LIMITED
      else if status \<ge> 500 then SERVER_ERROR
      else (case opt_chain (opt_chain body ''error'') ''code'' of
              Some (JString bodyCode) \<Rightarrow>
                (case known_code bodyCode of Some c \<Rightarrow> c | None \<Rightarrow> SERVER_ERROR)
            | _ \<Rightarrow> SERVER_ERROR))"

section \<open>JavaScript numbers\<close>

text \<open>
  A \<open>number\<close> of the program is an IEEE 754 binary64 value: a finite double, an
  infinity or \<open>NaN\<close>. A finite double is held as the real it denotes; the sign of zero
  is not kept, no operation below observes it.
\<close>

datatype number = Finite real | PosInf | NegInf | NaN

text \<open>The number of binary digits of a positive integer.\<close>

function bits :: "int \<Rightarrow> nat" where
  "bits n = (if n \<le> 0 then 0 else Suc (bits (n div 2)))"
  by pat_completeness auto
termination
  by (relation "measure nat") auto

declare bits.simps [simp del]

text \<open>The binary exponent of a positive real: \<open>2 powi expo x \<le> x < 2 powi (expo x + 1)\<close>.\<close>

definition expo :: "real \<Rightarrow> int" where
  "expo x = (if 1 \<le> x then int (bits \<lfloor>x\<rfloor>) - 1
             else - int (bits (\<lceil>1 / x\<rceil> - 1)))"

definition round_half_even :: "real \<Rightarrow> int" where
  "round_half_even y =
     (let f = \<lfloor>y\<rfloor>; d = y - of_int f
      in if d < 1 / 2 then f else if 1 / 2 < d then f + 1 else if even f then f else f + 1)"

text \<open>
  The spacing of the doubles around a positive real: 52 binary places below its exponent,
  and \<open>2 powi (- 1074)\<close> in the subnormal range.
\<close>

definition quantum :: "real \<Rightarrow> real" where
  "quantum a = 2 powi (max (expo a) (- 1022) - 52)"

text \<open>Rounding to the nearest double, ties to even, before the check for overflow.\<close>

definition rn :: "real \<Rightarrow> real" where
  "rn x = (if x = 0 then 0
           else sgn x * (of_int (round_half_even (\<bar>x\<bar> / quantum \<bar>x\<bar>)) * quantum \<bar>x\<bar>))"

text \<open>The double an exact result is delivered as.\<close>

definition fl :: "real \<Rightarrow> number" where
  "fl x = (let y = rn x
           in if 2 ^ 1024 \<le> y then PosInf else if y \<le> - (2 ^ 1024) then NegInf else Finite y)"

text \<open>The reals on the grid of the doubles, whatever their magnitude.\<close>

definition representable :: "real \<Rightarrow> bool" where
  "representable x = (\<exists>m e. x = of_int m * 2 powi e \<and> \<bar>m\<bar> < 2 ^ 53 \<and> - 1074 \<le> e)"

text \<open>Unary minus, \<open>+\<close>, \<open>*\<close> and \<open>>=\<close> on numbers, \<open>Math.floor\<close> and \<open>Math.max\<close>.\<close>

fun num_neg :: "number \<Rightarrow> number" where
  "num_neg (Finite a) = Finite (- a)"
| "num_neg PosInf = NegInf"
| "num_neg NegInf = PosInf"
| "num_neg NaN = NaN"

fun num_add :: "number \<Rightarrow> number \<Rightarrow> number" where
  "num_add NaN y = NaN"
| "num_add x NaN = NaN"
| "num_add (Finite a) (Finite b) = fl (a + b)"
| "num_add (Finite a) y = y"
| "num_add x (Finite b) = x"
| "num_add PosInf PosInf = PosInf"
| "num_add NegInf NegInf = NegInf"
| "num_add PosInf NegInf = NaN"
| "num_add NegInf PosInf = NaN"

fun num_mul :: "number \<Rightarrow> number \<Rightarrow> number" where
  "num_mul NaN y = NaN"
| "num_mul x NaN = NaN"
| "num_mul (Finite a) (Finite b) = fl (a * b)"
| "num_mul (Finite a) PosInf = (if a = 0 then NaN else if 0 < a then PosInf else NegInf)"
| "num_mul (Finite a) NegInf = (if a = 0 then NaN else if 0 < a then NegInf else PosInf)"
| "num_mul PosInf (Finite b) = (if b = 0 then NaN else if 0 < b then PosInf else NegInf)"
| "num_mul NegInf (Finite b) = (if b = 0 then NaN else if 0 < b then NegInf else PosInf)"
| "num_mul PosInf PosInf = PosInf"
| "num_mul PosInf NegInf = NegInf"
| "num_mul NegInf PosInf = NegInf"
| "num_mul NegInf NegInf = PosInf"

fun num_ge :: "number \<Rightarrow> number \<Rightarrow> bool" where
  "num_ge NaN y = False"
| "num_ge x NaN = False"
| "num_ge (Finite a) (Finite b) = (b \<le> a)"
| "num_ge PosInf y = True"
| "num_ge x NegInf = True"
| "num_ge x PosInf = False"
| "num_ge NegInf y = False"

fun Math_floor :: "number \<Rightarrow> number" where
  "Math_floor (Finite a) = Finite (of_int \<lfloor>a\<rfloor>)"
| "Math_floor x = x"

fun Math_max :: "number \<Rightarrow> number \<Rightarrow> number" where
  "Math_max NaN y = NaN"
| "Math_max x NaN = NaN"
| "Math_max PosInf y = PosInf"
| "Math_max x PosInf = PosInf"
| "Math_max NegInf y = y"
| "Math_max x NegInf = x"
| "Math_max (Finite a) (Finite b) = Finite (max a b)"

section \<open>Retry primitives (src/src/internal/retry.ts)\<close>

definition RETRYABLE_STATUS_CODES :: "int list" where
  "RETRYABLE_STATUS_CODES = [429, 500, 502, 503, 504]"

definition RETRYABLE_ERROR_CODES :: "ErrorCode list" where
  "RETRYABLE_ERROR_CODES = [NETWORK_ERROR, TIMEOUT, RATE_LIMITED, SERVER_ERROR]"

text \<open>
  \<open>isRetryable\<close>. The guard \<open>error.statusCode && ...\<close> is false for an absent
  status and for the falsy status 0.
\<close>

definition isRetryable :: "BearWatchError \<Rightarrow> bool" where
  "isRetryable error =
     (if (case statusCode error of
            None \<Rightarrow> False
          | Some s \<Rightarrow> s \<noteq> 0 \<and> List.member RETRYABLE_STATUS_CODES s)
      then True
      else List.member RETRYABLE_ERROR_CODES (code error))"

text \<open>
  \<open>calculateBackoffDelay(attempt, baseDelay)\<close>, in doubles. The third argument is the
  value \<open>Math.random()\<close> returns in this call. \<open>Math.pow(2, attempt)\<close> is the double
  of \<open>2 ^ attempt\<close>: exact up to attempt 1023 and \<open>Infinity\<close> from 1024 on.
\<close>

definition calculateBackoffDelay :: "nat \<Rightarrow> int \<Rightarrow> real \<Rightarrow> number" where
  "calculateBackoffDelay attempt baseDelay rnd =
     (let exponentialDelay = num_mul (fl (of_int baseDelay)) (fl (2 ^ attempt));
          jitter = num_add (Finite (1 / 2)) (num_mul (fl rnd) (Finite (1 / 2)))
      in Math_floor (num_mul exponentialDelay jitter))"

text \<open>
  \<open>parseInt(s, 10)\<close> of ECMAScript on a header value (a byte string): leading white
  space is skipped, one sign is read, then the longest run of decimal digits; the rest of
  the string is ignored. Without a digit the result is \<open>NaN\<close>; otherwise it is the
  double nearest to the integer the digits denote, with the sign applied.
\<close>

definition is_ws :: "char \<Rightarrow> bool" where
  "is_ws c = List.member [9, 10, 11, 12, 13, 32, 160 :: nat] (of_char c)"

definition is_digit :: "char \<Rightarrow> bool" where
  "is_digit c = (48 \<le> (of_char c :: nat) \<and> (of_char c :: nat) \<le> 57)"

definition digits_value :: "string \<Rightarrow> int" where
  "digits_value z = foldl (\<lambda>acc c. acc * 10 + (of_char c - 48)) 0 z"

definition parseInt :: "string \<Rightarrow> number" where
  "parseInt s =
     (let t = dropWhile is_ws s;
          sign = (case t of c # _ \<Rightarrow> if c = CHR ''-'' then - 1 else 1 | [] \<Rightarrow> (1::int));
          u = (case t of c # r \<Rightarrow> if c = CHR ''-'' \<or> c = CHR ''+'' then r else t | [] \<Rightarrow> t);
          z = takeWhile is_digit u
      in if z = [] then NaN
         else if sign = - 1 then num_neg (fl (of_int (digits_value z)))
         else fl (of_int (digits_value z)))"

text \<open>
  \<open>parseRetryAfter(retryAfter)\<close>. \<open>Date_parse s\<close> is \<open>new Date(s).getTime()\<close>,
  a time value in milliseconds (\<open>None\<close> for an invalid date), and \<open>now\<close> is
  \<open>Date.now()\<close>; both belong to the runtime and are parameters. \<open>!retryAfter\<close> holds
  for \<open>null\<close> and for the empty string.
\<close>

definition parseRetryAfter :: "(string \<Rightarrow> int option) \<Rightarrow> int \<Rightarrow> string option \<Rightarrow> number option" where
  "parseRetryAfter Date_parse now header =
     (case header of
        None \<Rightarrow> None
      | Some s \<Rightarrow>
          if s = [] then None
          else
            let seconds = parseInt s
            in if seconds \<noteq> NaN \<and> num_ge seconds (Finite 0)
               then Some (num_mul seconds (Finite 1000))
               else (case Date_parse s of
                       Some t \<Rightarrow>
                         let delay = num_add (fl (of_int t)) (num_neg (fl (of_int now)))
                         in Some (Math_max (Finite 0) delay)
                     | None \<Rightarrow> None))"

text \<open>
  What the runtime supplies to a call: the date parser and \<open>JSON.parse\<close>
  (\<open>None\<close> when it raises a \<open>SyntaxError\<close>), and, for the loop iteration with
  index \<open>k\<close>, the clock reading \<open>Date_now k\<close> and the draw \<open>Math_random k\<close>
  (each iteration reads either at most once).
\<close>

record Runtime =
  Date_parse :: "string \<Rightarrow> int option"
  Date_now :: "nat \<Rightarrow> int"
  Math_random :: "nat \<Rightarrow> real"
  JSON_parse :: "string \<Rightarrow> json option"

record RetryOptions =
  maxRetries :: int
  baseDelay :: int

text \<open>The delay computed at retry.ts lines 107-116 for a failure that is retried.\<close>

definition retry_delay :: "Runtime \<Rightarrow> RetryOptions \<Rightarrow> nat \<Rightarrow> BearWatchError \<Rightarrow> number" where
  "retry_delay rt options attempt error =
     (if code error = RATE_LIMITED then
        (case parseRetryAfter (Date_parse rt) (Date_now rt attempt) (retryAfter error) of
           Some retryAfterDelay \<Rightarrow> retryAfterDelay
         | None \<Rightarrow> calculateBackoffDelay attempt (baseDelay options) (Math_random rt attempt))
      else calculateBackoffDelay attempt (baseDelay options) (Math_random rt attempt))"

text \<open>
  A finished call of \<open>withRetry\<close>: what the promise settles with, how often \<open>fn\<close>
  was invoked, and the arguments of the calls of \<open>sleep\<close>, in order.
\<close>

record 'a retry_run =
  outcome :: "thrown + 'a"
  attempts :: nat
  sleeps :: "number list"

text \<open>
  The \<open>for\<close> loop of \<open>withRetry\<close>, entered with the loop variable \<open>attempt\<close>.
  \<open>fn k\<close> is the outcome of the invocation of \<open>fn\<close> in iteration \<open>k\<close> (every
  iteration invokes it exactly once). The last branch is the \<open>throw lastError\<close>
  after the loop.
\<close>

function withRetry_loop ::
  "Runtime \<Rightarrow> (nat \<Rightarrow> thrown + 'a) \<Rightarrow> RetryOptions \<Rightarrow> nat \<Rightarrow> BearWatchError option \<Rightarrow> number list \<Rightarrow> 'a retry_run" where
  "withRetry_loop rt fn options attempt lastError slept =
     (if int attempt \<le> maxRetries options then
        (case fn attempt of
           Inr v \<Rightarrow> \<lparr>outcome = Inr v, attempts = Suc attempt, sleeps = slept\<rparr>
         | Inl (Sdk error) \<Rightarrow>
             if \<not> isRetryable error \<or> int attempt \<ge> maxRetries options
             then \<lparr>outcome = Inl (Sdk error), attempts = Suc attempt, sleeps = slept\<rparr>
             else withRetry_loop rt fn options (Suc attempt) (Some error)
                    (slept @ [retry_delay rt options attempt error])
         | Inl t \<Rightarrow> \<lparr>outcome = Inl t, attempts = Suc attempt, sleeps = slept\<rparr>)
      else \<lparr>outcome = Inl (case lastError of None \<Rightarrow> Undefined | Some e \<Rightarrow> Sdk e),
             attempts = attempt, sleeps = slept\<rparr>)"
  by pat_completeness auto
termination
  by (relation "measure (\<lambda>(rt, fn, options, attempt, lastError, slept).
        nat (maxRetries options + 1 - int attempt))") auto

declare withRetry_loop.simps [simp del]

definition withRetry :: "Runtime \<Rightarrow> (nat \<Rightarrow> thrown + 'a) \<Rightarrow> RetryOptions \<Rightarrow> 'a retry_run" where
  "withRetry rt fn options = withRetry_loop rt fn options 0 None []"

section \<open>The request executor (createHttpClient, src/unnamed/part_001)\<close>

text \<open>
  \<open>ResolvedConfig\<close> of config.ts; its field \<open>maxRetries\<close> is \<open>maxRetries_cfg\<close>
  here, the plain name being the field of \<open>RetryOptions\<close>. Of \<open>RequestOptions\<close> the
  fields \<open>retry\<close> and \<open>context\<close> are kept: \<open>method\<close> and \<open>body\<close> only shape
  the request that is sent.
\<close>

record ResolvedConfig =
  apiKey :: string
  baseUrl :: string
  timeout :: int
  maxRetries_cfg :: int
  retryDelay :: int

record RequestOptions =
  retry :: "bool option"
  req_context :: "ErrorContext option"

text \<open>
  What one attempt reads of a response: \<open>response.status\<close>, the headers
  \<open>Content-Type\<close> and \<open>Retry-After\<close> (\<open>None\<close> when \<open>headers.get\<close> returns
  \<open>null\<close>) and \<open>await response.text()\<close>.
\<close>

record Response =
  status :: int
  Content_Type :: "string option"
  Retry_After :: "string option"
  responseText :: string

text \<open>
  One attempt as the network decides it: \<open>fetch\<close> and \<open>response.text()\<close> deliver a
  response or reject with a value, and \<open>signal_reason\<close> is
  \<open>controller.signal.reason\<close> when the \<open>catch\<close> block runs (\<open>Some ''timeout''\<close>
  once the timer has called \<open>controller.abort('timeout')\<close>).
\<close>

datatype fetch_result = Responded Response | Rejected js_value

record Attempt =
  fetched :: fetch_result
  signal_reason :: "string option"

definition new_BearWatchError ::
  "message \<Rightarrow> ErrorCode \<Rightarrow> int option \<Rightarrow> string option \<Rightarrow> ErrorContext option \<Rightarrow> js_value option \<Rightarrow> BearWatchError" where
  "new_BearWatchError m c st body ctx cs =
     \<lparr>msg = m, code = c, statusCode = st, responseBody = body, err_context = ctx,
      cause = cs, retryAfter = None\<rparr>"

fun starts_with :: "string \<Rightarrow> string \<Rightarrow> bool" where
  "starts_with s [] = True"
| "starts_with [] (p # ps) = False"
| "starts_with (c # cs) (p # ps) = (c = p \<and> starts_with cs ps)"

text \<open>\<open>s.includes(pat)\<close>.\<close>

fun includes_str :: "string \<Rightarrow> string \<Rightarrow> bool" where
  "includes_str [] pat = starts_with [] pat"
| "includes_str (c # cs) pat = (starts_with (c # cs) pat \<or> includes_str cs pat)"

text \<open>\<open>contentType?.includes('application/json')\<close>, used as a truth value.\<close>

definition isJson :: "Response \<Rightarrow> bool" where
  "isJson r = (case Content_Type r of
                 None \<Rightarrow> False
               | Some contentType \<Rightarrow> includes_str contentType ''application/json'')"

text \<open>\<open>response.ok\<close>: a status from 200 to 299.\<close>

definition ok :: "Response \<Rightarrow> bool" where
  "ok r = (200 \<le> status r \<and> status r \<le> 299)"

text \<open>\<open>typeof v === 'object' && v !== null\<close>.\<close>

fun is_object :: "json \<Rightarrow> bool" where
  "is_object (JObject kvs) = True"
| "is_object (JArray vs) = True"
| "is_object _ = False"

definition getErrorMessage :: "json \<Rightarrow> string option" where
  "getErrorMessage data =
     (if is_object data then
        (case get_prop data ''message'' of
           Some (JString m) \<Rightarrow> Some m
         | _ \<Rightarrow>
            (case get_prop data ''error'' of
               Some e \<Rightarrow>
                 if is_object e then
                   (case get_prop e ''message'' of Some (JString m) \<Rightarrow> Some m | _ \<Rightarrow> None)
                 else None
             | None \<Rightarrow> None))
      else None)"

text \<open>The \<open>TypeError\<close> the engine raises when a property of \<open>null\<close> is read.\<close>

definition null_deref :: js_value where
  "null_deref = \<lparr>is_Error = True, is_TypeError = True, err_name = ''TypeError'',
                 err_message = ''Cannot read properties of null''\<rparr>"

text \<open>
  The \<open>try\<close> block of \<open>executeRequest\<close> from the point where the response has
  arrived (lines 51-176). \<open>Inl\<close> is what the block throws, before the \<open>catch\<close>
  block sees it.
\<close>

definition try_block ::
  "Runtime \<Rightarrow> ErrorContext option \<Rightarrow> Response \<Rightarrow> thrown + json option" where
  "try_block rt ctx r =
     (if \<not> ok r then
        (if status r \<ge> 500 \<and> \<not> isJson r then
           Inl (Sdk (new_BearWatchError (Server_error (status r)) SERVER_ERROR
                      (Some (status r)) (Some (responseText r)) ctx None))
         else if status r = 429 then
           Inl (Sdk ((new_BearWatchError (Text ''Rate limit exceeded'') RATE_LIMITED
                      (Some 429) (Some (responseText r)) ctx None)
                     \<lparr>retryAfter := Retry_After r\<rparr>))
         else if \<not> isJson r then
           Inl (Sdk (new_BearWatchError (Text ''Non-JSON response received'') INVALID_RESPONSE
                      (Some (status r)) (Some (responseText r)) ctx None))
         else
           (case JSON_parse rt (responseText r) of
              None \<Rightarrow>
                if status r \<ge> 500 then
                  Inl (Sdk (new_BearWatchError (Server_error (status r)) SERVER_ERROR
                             (Some (status r)) (Some (responseText r)) ctx None))
                else
                  Inl (Sdk (new_BearWatchError (Text ''Failed to parse JSON response'')
                             INVALID_RESPONSE (Some (status r)) (Some (responseText r)) ctx None))
            | Some data \<Rightarrow>
                let errorCode = mapStatusToErrorCode (status r) (Some data);
                    errorMessage = (case getErrorMessage data of
                                      Some m \<Rightarrow> Text m
                                    | None \<Rightarrow> Request_failed_with_status (status r));
                    error = new_BearWatchError errorMessage errorCode
                              (Some (status r)) (Some (responseText r)) ctx None
                in Inl (Sdk (if status r = 429 then error\<lparr>retryAfter := Retry_After r\<rparr>
                             else error))))
      else if \<not> isJson r then
        Inl (Sdk (new_BearWatchError (Text ''Non-JSON response received'') INVALID_RESPONSE
                   (Some (status r)) (Some (responseText r)) ctx None))
      else
        (case JSON_parse rt (responseText r) of
           None \<Rightarrow>
             Inl (Sdk (new_BearWatchError (Text ''Failed to parse JSON response'')
                        INVALID_RESPONSE (Some (status r)) (Some (responseText r)) ctx None))
         | Some JNull \<Rightarrow> Inl (Foreign null_deref)
         | Some apiResponse \<Rightarrow>
             if get_prop apiResponse ''success'' = Some (JBool False) then
               Inl (Sdk (new_BearWatchError
                          (case opt_chain (get_prop apiResponse ''error'') ''message'' of
                             None \<Rightarrow> Text ''Request failed''
                           | Some JNull \<Rightarrow> Text ''Request failed''
                           | Some (JString m) \<Rightarrow> Text m
                           | Some v \<Rightarrow> ToString v)
                          SERVER_ERROR (Some (status r)) (Some (responseText r)) ctx None))
             else Inr (get_prop apiResponse ''data'')))"

text \<open>The \<open>catch\<close> block of \<open>executeRequest\<close> (lines 177-213).\<close>

definition catch_block ::
  "ResolvedConfig \<Rightarrow> ErrorContext option \<Rightarrow> string option \<Rightarrow> thrown \<Rightarrow> thrown" where
  "catch_block config ctx reason t =
     (case t of
        Sdk e \<Rightarrow> Sdk e
      | Undefined \<Rightarrow>
          Sdk (new_BearWatchError (Text ''Unknown error occurred'') NETWORK_ERROR None None ctx None)
      | Foreign error \<Rightarrow>
          if is_Error error \<and> err_name error = ''AbortError'' then
            (if reason = Some ''timeout'' then
               Sdk (new_BearWatchError (Timed_out_after (timeout config)) TIMEOUT None None ctx
                     (Some error))
             else Foreign error)
          else if is_TypeError error then
            Sdk (new_BearWatchError (Text ''Network error'') NETWORK_ERROR None None ctx (Some error))
          else
            Sdk (new_BearWatchError (Text ''Unknown error occurred'') NETWORK_ERROR None None ctx
                  (if is_Error error then Some error else None)))"

definition executeRequest ::
  "Runtime \<Rightarrow> ResolvedConfig \<Rightarrow> RequestOptions \<Rightarrow> Attempt \<Rightarrow> thrown + json option" where
  "executeRequest rt config options a =
     (case (case fetched a of
              Rejected v \<Rightarrow> Inl (Foreign v)
            | Responded r \<Rightarrow> try_block rt (req_context options) r) of
        Inr payload \<Rightarrow> Inr payload
      | Inl t \<Rightarrow> Inl (catch_block config (req_context options) (signal_reason a) t))"

text \<open>
  \<open>request(path, options)\<close>: attempt \<open>k\<close> of the call meets the network behaviour
  \<open>net k\<close>.
\<close>

definition request ::
  "Runtime \<Rightarrow> ResolvedConfig \<Rightarrow> RequestOptions \<Rightarrow> (nat \<Rightarrow> Attempt) \<Rightarrow> (json option) retry_run" where
  "request rt config options net =
     (if retry options \<noteq> Some False then
        withRetry rt (\<lambda>k. executeRequest rt config options (net k))
          \<lparr>maxRetries = maxRetries_cfg config, baseDelay = retryDelay config\<rparr>
      else \<lparr>outcome = executeRequest rt config options (net 0), attempts = 1, sleeps = []\<rparr>)"

section \<open>The client (src/src/bearwatch.ts)\<close>

datatype RequestStatus = RUNNING | SUCCESS | FAILED

text \<open>
  A finished call of \<open>wrap\<close>: what it settles with and the statuses it reported.
\<close>

record 'a wrap_run =
  settled :: "thrown + 'a"
  reported :: "RequestStatus list"

text \<open>
  \<open>wrap(jobId, fn, options)\<close>. \<open>fn\<close> is the outcome of \<open>await fn()\<close> and
  \<open>ping k st\<close> the outcome of the \<open>k\<close>-th call of \<open>this.ping\<close>, made with status
  \<open>st\<close>. A failure of the \<open>SUCCESS\<close> report is raised inside the outer \<open>try\<close>
  and reaches the \<open>catch\<close> block as well.
\<close>

definition wrap :: "(nat \<Rightarrow> RequestStatus \<Rightarrow> thrown + 'r) \<Rightarrow> (thrown + 'a) \<Rightarrow> 'a wrap_run" where
  "wrap ping fn =
     (case fn of
        Inr result \<Rightarrow>
          (case ping 0 SUCCESS of
             Inr _ \<Rightarrow> \<lparr>settled = Inr result, reported = [SUCCESS]\<rparr>
           | Inl error \<Rightarrow>
               (case ping 1 FAILED of
                  Inr _ \<Rightarrow> \<lparr>settled = Inl error, reported = [SUCCESS, FAILED]\<rparr>
                | Inl _ \<Rightarrow> \<lparr>settled = Inl error, reported = [SUCCESS, FAILED]\<rparr>))
      | Inl error \<Rightarrow>
          (case ping 0 FAILED of
             Inr _ \<Rightarrow> \<lparr>settled = Inl error, reported = [FAILED]\<rparr>
           | Inl _ \<Rightarrow> \<lparr>settled = Inl error, reported = [FAILED]\<rparr>))"

section \<open>Sample runs\<close>

text \<open>Concrete responses, a runtime and networks, on which the theorems below are run.\<close>

definition body_401 :: string where
  "body_401 = ''{\"success\":false,\"error\":{\"message\":\"Invalid API key\"}}''"

definition body_429 :: string where
  "body_429 = ''{\"success\":false,\"error\":{\"message\":\"Rate limit exceeded\"}}''"

definition body_ok :: string where
  "body_ok = ''{\"success\":true,\"data\":{\"status\":\"SUCCESS\"}}''"

definition sample_JSON_parse :: "string \<Rightarrow> json option" where
  "sample_JSON_parse s =
     (if s = ''null'' then Some JNull
      else if s = body_401 then
        Some (JObject [(''success'', JBool False),
                       (''error'', JObject [(''message'', JString ''Invalid API key'')])])
      else if s = body_429 then
        Some (JObject [(''success'', JBool False),
                       (''error'', JObject [(''message'', JString ''Rate limit exceeded'')])])
      else if s = body_ok then
        Some (JObject [(''success'', JBool True),
                       (''data'', JObject [(''status'', JString ''SUCCESS'')])])
      else None)"

definition sample_runtime :: Runtime where
  "sample_runtime =
     \<lparr>Date_parse = (\<lambda>s. if s = ''Wed, 21 Oct 2015 07:28:00 GMT'' then Some 1445412480000
                         else if s = ''2030-01-01T00:00:00Z'' then Some 1893456000000
                         else None),
      Date_now = (\<lambda>k. 1445412470000),
      Math_random = (\<lambda>k. 0),
      JSON_parse = sample_JSON_parse\<rparr>"

definition sample_config :: ResolvedConfig where
  "sample_config =
     \<lparr>apiKey = ''test-key'', baseUrl = ''https://api.bearwatch.dev'', timeout = 30000,
      maxRetries_cfg = 3, retryDelay = 500\<rparr>"

definition sample_options :: RequestOptions where
  "sample_options = \<lparr>retry = None, req_context = None\<rparr>"

definition responds :: "int \<Rightarrow> string option \<Rightarrow> string option \<Rightarrow> string \<Rightarrow> Attempt" where
  "responds st ct ra body =
     \<lparr>fetched = Responded \<lparr>status = st, Content_Type = ct, Retry_After = ra,
                              responseText = body\<rparr>,
      signal_reason = None\<rparr>"

definition user_abort :: js_value where
  "user_abort = \<lparr>is_Error = True, is_TypeError = False, err_name = ''AbortError'',
                 err_message = ''The operation was aborted''\<rparr>"

definition business_error :: js_value where
  "business_error = \<lparr>is_Error = True, is_TypeError = False, err_name = ''Error'',
                     err_message = ''Original business error''\<rparr>"

definition sample_policy :: RetryOptions where
  "sample_policy = \<lparr>maxRetries = 3, baseDelay = 500\<rparr>"

definition error_401 :: BearWatchError where
  "error_401 = new_BearWatchError (Text ''Invalid API key'') INVALID_API_KEY (Some 401)
                 (Some body_401) None None"


definition error_502 :: BearWatchError where
  "error_502 = new_BearWatchError (Server_error 502) SERVER_ERROR (Some 502)
                 (Some ''<html>502 Bad Gateway</html>'') None None"

text \<open>
  A thrown string. When the timer of \<open>executeRequest\<close> fires it calls
  \<open>controller.abort('timeout')\<close>, and \<open>fetch\<close> rejects with the abort reason of its
  signal, as the Fetch standard prescribes: with the string \<open>'timeout'\<close> itself, which is
  not an \<open>Error\<close> and has no \<open>name\<close>.
\<close>

definition thrown_string :: "string \<Rightarrow> js_value" where
  "thrown_string s = \<lparr>is_Error = False, is_TypeError = False, err_name = [], err_message = s\<rparr>"

definition timer_fired :: Attempt where
  "timer_fired = \<lparr>fetched = Rejected (thrown_string ''timeout''),
                  signal_reason = Some ''timeout''\<rparr>"

definition net_401 :: "nat \<Rightarrow> Attempt" where
  "net_401 k = responds 401 (Some ''application/json'') None body_401"

definition net_502_html :: "nat \<Rightarrow> Attempt" where
  "net_502_html k = responds 502 (Some ''text/html'') None ''<html>502 Bad Gateway</html>''"


definition net_user_abort :: "nat \<Rightarrow> Attempt" where
  "net_user_abort k = \<lparr>fetched = Rejected user_abort, signal_reason = None\<rparr>"

definition net_null_body :: "nat \<Rightarrow> Attempt" where
  "net_null_body k = responds 200 (Some ''application/json'') None ''null''"

section \<open>Auxiliary facts\<close>

subsection \<open>Rounding to a double\<close>

lemma bits_bounds: "0 < n \<Longrightarrow> 2 ^ (bits n - 1) \<le> n \<and> n < 2 ^ bits n"
proof (induction n rule: bits.induct)
  case (1 n)
  show ?case
  proof (cases "n div 2 \<le> 0")
    case True
    with "1.prems" have n: "n = 1" by presburger
    have "bits 1 = Suc 0"
      by (simp add: bits.simps [of 1] bits.simps [of 0])
    then show ?thesis by (simp add: n)
  next
    case False
    then have pos: "0 < n div 2" by simp
    from "1.IH" [OF _ pos] "1.prems"
    have IH: "2 ^ (bits (n div 2) - 1) \<le> n div 2" "n div 2 < 2 ^ bits (n div 2)" by auto
    have b: "bits n = Suc (bits (n div 2))" using "1.prems" by (subst bits.simps) simp
    have bp: "0 < bits (n div 2)" using pos by (subst bits.simps) simp
    have "2 ^ bits (n div 2) \<le> 2 * (n div 2)"
      using IH(1) bp by (cases "bits (n div 2)") simp_all
    then have lo: "2 ^ (bits n - 1) \<le> n" using b by simp
    have "n < 2 * 2 ^ bits (n div 2)" using IH(2) by presburger
    then show ?thesis using lo b by simp
  qed
qed

lemma bits_pos: "0 < n \<Longrightarrow> 0 < bits n"
  by (subst bits.simps) simp

lemma expo_le:
  assumes "0 < x"
  shows "2 powi (expo x) \<le> x"
proof (cases "1 \<le> x")
  case True
  let ?n = "\<lfloor>x\<rfloor>"
  have n: "0 < ?n" using True by simp
  have e: "expo x = int (bits ?n - 1)"
    using True bits_pos [OF n] by (simp add: expo_def)
  have "2 ^ (bits ?n - 1) \<le> ?n"
    using bits_bounds [OF n] by simp
  then have "real_of_int (2 ^ (bits ?n - 1)) \<le> real_of_int ?n"
    by (simp only: of_int_le_iff)
  also have "real_of_int ?n \<le> x" by simp
  finally show ?thesis by (simp add: e)
next
  case False
  let ?z = "\<lceil>1 / x\<rceil> - 1"
  have "1 < 1 / x" using False assms by simp
  then have z: "0 < ?z" by (simp add: less_ceiling_iff)
  have "?z < 2 ^ bits ?z" using bits_bounds [OF z] by simp
  then have "\<lceil>1 / x\<rceil> \<le> 2 ^ bits ?z" by simp
  then have "1 / x \<le> of_int (2 ^ bits ?z)" by (simp only: ceiling_le_iff)
  then have "1 / 2 ^ bits ?z \<le> x"
    using assms by (simp add: field_simps)
  moreover have "expo x = - int (bits ?z)" using False by (simp add: expo_def)
  ultimately show ?thesis by (simp add: power_int_minus_divide)
qed

lemma rhe_ge: "of_int n \<le> y \<Longrightarrow> n \<le> round_half_even y"
proof -
  assume "of_int n \<le> y"
  then have "n \<le> \<lfloor>y\<rfloor>" by (simp add: le_floor_iff)
  then show ?thesis by (simp add: round_half_even_def Let_def)
qed

lemma rhe_le: "y \<le> of_int n \<Longrightarrow> round_half_even y \<le> n"
proof (cases "y = of_int n")
  case True
  then show ?thesis by (simp add: round_half_even_def Let_def)
next
  case False
  assume "y \<le> of_int n"
  with False have "y < of_int n" by simp
  then have "\<lfloor>y\<rfloor> < n" by (simp add: floor_less_iff)
  then show ?thesis by (simp add: round_half_even_def Let_def)
qed

lemma quantum_pos: "0 < quantum a"
  by (simp add: quantum_def)

lemma rn_nonneg_eq:
  "0 < x \<Longrightarrow> rn x = of_int (round_half_even (x / quantum x)) * quantum x"
  by (simp add: rn_def)

lemma grid:
  assumes "k \<le> e"
  shows "of_int (m * 2 ^ nat (e - k)) * (2::real) powi k = of_int m * 2 powi e"
proof -
  have "(2::real) powi e = 2 powi ((e - k) + k)" by simp
  also have "\<dots> = 2 powi (e - k) * 2 powi k" by (rule power_int_add) simp
  also have "(2::real) powi (e - k) = 2 ^ nat (e - k)"
    using assms by (simp add: power_int_nonneg_exp)
  finally show ?thesis by simp
qed

lemma rn_lower:
  assumes "0 \<le> x" and "representable lo" and "lo \<le> x"
  shows "lo \<le> rn x"
proof (cases "x = 0")
  case True
  then show ?thesis using assms(3) by (simp add: rn_def)
next
  case False
  then have x: "0 < x" using assms(1) by simp
  let ?q = "quantum x"
  let ?k = "max (expo x) (- 1022) - 52"
  let ?R = "round_half_even (x / ?q)"
  have q: "0 < ?q" "?q = 2 powi ?k" by (simp_all add: quantum_def)
  have r: "rn x = of_int ?R * ?q" by (rule rn_nonneg_eq [OF x])
  have step: "of_int n * ?q \<le> rn x" if "of_int n * ?q \<le> x" for n
  proof -
    from that q(1) have "of_int n \<le> x / ?q" by (simp add: field_simps)
    then have "n \<le> ?R" by (rule rhe_ge)
    then have "real_of_int n \<le> real_of_int ?R" by (simp only: of_int_le_iff)
    then have "of_int n * ?q \<le> of_int ?R * ?q" using q(1) by (intro mult_right_mono) simp_all
    then show ?thesis by (simp only: r)
  qed
  show ?thesis
  proof (cases "0 < lo")
    case False
    have "of_int 0 * ?q \<le> rn x" by (rule step) (use x in simp)
    then show ?thesis using False by simp
  next
    case True
    from assms(2) obtain m e where lo: "lo = of_int m * 2 powi e"
      and m: "\<bar>m\<bar> < 2 ^ 53" and e: "- 1074 \<le> e"
      by (auto simp: representable_def)
    show ?thesis
    proof (cases "?k \<le> e")
      case True
      have "of_int (m * 2 ^ nat (e - ?k)) * ?q = lo"
        unfolding q(2) lo by (rule grid [OF True])
      then show ?thesis using step [of "m * 2 ^ nat (e - ?k)"] assms(3) by simp
    next
      case False
      then have k: "?k = expo x - 52" "e + 1 \<le> ?k" using e by auto
      have "lo < 2 ^ 53 * 2 powi e"
      proof -
        have "real_of_int m < 2 ^ 53" using m by (simp add: abs_less_iff flip: of_int_less_iff)
        then show ?thesis unfolding lo by (intro mult_strict_right_mono) simp_all
      qed
      also have "(2::real) ^ 53 * 2 powi e = 2 powi (53 + e)"
        by (subst power_int_add) simp_all
      also have "\<dots> \<le> 2 powi (expo x)"
        using k by (intro power_int_increasing) simp_all
      finally have lt: "lo < 2 powi (expo x)" .
      have B: "of_int (2 ^ 52) * ?q = 2 powi (expo x)"
        unfolding q(2) k(1) using grid [of "expo x - 52" "expo x" 1] by simp
      have "2 powi (expo x) \<le> rn x"
        using step [of "2 ^ 52"] expo_le [OF x] unfolding B by simp
      with lt show ?thesis by simp
    qed
  qed
qed

lemma rn_upper:
  assumes "0 \<le> x" and "representable hi" and "x \<le> hi"
  shows "rn x \<le> hi"
proof (cases "x = 0")
  case True
  then show ?thesis using assms(3) by (simp add: rn_def)
next
  case False
  then have x: "0 < x" using assms(1) by simp
  let ?q = "quantum x"
  let ?k = "max (expo x) (- 1022) - 52"
  let ?R = "round_half_even (x / ?q)"
  have q: "0 < ?q" "?q = 2 powi ?k" by (simp_all add: quantum_def)
  have r: "rn x = of_int ?R * ?q" by (rule rn_nonneg_eq [OF x])
  from assms(2) obtain m e where hi: "hi = of_int m * 2 powi e"
    and m: "\<bar>m\<bar> < 2 ^ 53" and e: "- 1074 \<le> e"
    by (auto simp: representable_def)
  show ?thesis
  proof (cases "?k \<le> e")
    case True
    let ?n = "m * 2 ^ nat (e - ?k)"
    have g: "of_int ?n * ?q = hi"
      unfolding q(2) hi by (rule grid [OF True])
    then have "x / ?q \<le> of_int ?n" using assms(3) q(1) by (simp add: field_simps)
    then have "?R \<le> ?n" by (rule rhe_le)
    then have "real_of_int ?R \<le> real_of_int ?n" by (simp only: of_int_le_iff)
    then have "of_int ?R * ?q \<le> of_int ?n * ?q" using q(1) by (intro mult_right_mono) simp_all
    then show ?thesis by (simp only: r g)
  next
    case False
    then have k: "?k = expo x - 52" "e + 1 \<le> ?k" using e by auto
    have "hi < 2 ^ 53 * 2 powi e"
    proof -
      have "real_of_int m < 2 ^ 53" using m by (simp add: abs_less_iff flip: of_int_less_iff)
      then show ?thesis unfolding hi by (intro mult_strict_right_mono) simp_all
    qed
    also have "(2::real) ^ 53 * 2 powi e = 2 powi (53 + e)"
      by (subst power_int_add) simp_all
    also have "\<dots> \<le> 2 powi (expo x)"
      using k by (intro power_int_increasing) simp_all
    also have "\<dots> \<le> x" by (rule expo_le [OF x])
    finally show ?thesis using assms(3) by simp
  qed
qed

lemma rn_exact: "0 \<le> x \<Longrightarrow> representable x \<Longrightarrow> rn x = x"
  using rn_lower [of x x] rn_upper [of x x] by simp

lemma representableI:
  assumes "\<bar>b\<bar> \<le> 2 ^ 53" and "- 1074 \<le> e"
  shows "representable (of_int b * 2 powi e)"
proof (cases "\<bar>b\<bar> < 2 ^ 53")
  case True
  then show ?thesis using assms(2) unfolding representable_def by blast
next
  case False
  then have b: "\<bar>b\<bar> = 2 ^ 53" using assms(1) by simp
  then have "b = 2 ^ 53 \<or> b = - (2 ^ 53)" by (auto simp: abs_if split: if_splits)
  then obtain m where m: "b = m * 2" "\<bar>m\<bar> < 2 ^ 53"
    by (elim disjE) (rule that [of "2 ^ 52"], simp, simp, rule that [of "- (2 ^ 52)"], simp, simp)
  have "of_int b * (2::real) powi e = of_int m * 2 powi (e + 1)"
    by (simp add: m(1) power_int_add)
  then show ?thesis using m(2) assms(2) unfolding representable_def
    by (intro exI [of _ m] exI [of _ "e + 1"]) simp
qed

lemma representable_int: "\<bar>b\<bar> \<le> 2 ^ 53 \<Longrightarrow> representable (of_int b)"
  using representableI [of b 0] by simp

lemma representable_consts:
  "representable 0" "representable 1" "representable (1 / 2)"
  using representableI [of 0 0] representableI [of 1 0] representableI [of 1 "- 1"]
  by simp_all

lemma representable_scale:
  assumes "representable x" and "1 \<le> \<bar>x\<bar>" and "- 1 \<le> k"
  shows "representable (x * 2 powi k)"
proof -
  from assms(1) obtain m e where x: "x = of_int m * 2 powi e"
    and m: "\<bar>m\<bar> < 2 ^ 53" and e: "- 1074 \<le> e"
    by (auto simp: representable_def)
  have "- 1073 \<le> e"
  proof (rule ccontr)
    assume "\<not> - 1073 \<le> e"
    with e have e': "e = - 1074" by simp
    have "real_of_int \<bar>m\<bar> < real_of_int (2 ^ 53)"
      using m by (simp only: of_int_less_iff)
    then have "\<bar>real_of_int m\<bar> < 2 ^ 53" by simp
    then have "\<bar>x\<bar> < 2 ^ 53 * 2 powi (- 1074)"
      unfolding x e' abs_mult by (simp add: mult_strict_right_mono)
    also have "(2::real) ^ 53 * 2 powi (- 1074) \<le> 1" by (simp add: power_int_minus_divide)
    finally show False using assms(2) by simp
  qed
  then have "- 1074 \<le> e + k" using assms(3) by simp
  moreover have "x * 2 powi k = of_int m * 2 powi (e + k)"
    by (simp add: x power_int_add)
  ultimately show ?thesis using m unfolding representable_def by blast
qed

lemma fl_Finite: "\<bar>rn x\<bar> < 2 ^ 1024 \<Longrightarrow> fl x = Finite (rn x)"
  by (auto simp: fl_def Let_def abs_less_iff)

lemma fl_between:
  assumes "representable lo" and "representable hi" and "0 \<le> lo" and "lo \<le> x" and "x \<le> hi"
    and "hi < 2 ^ 1024"
  shows "fl x = Finite (rn x) \<and> lo \<le> rn x \<and> rn x \<le> hi"
proof -
  have x: "0 \<le> x" using assms(3,4) by simp
  have l: "lo \<le> rn x" by (rule rn_lower [OF x assms(1,4)])
  have h: "rn x \<le> hi" by (rule rn_upper [OF x assms(2,5)])
  have "\<bar>rn x\<bar> < 2 ^ 1024" using l h assms(3,6) by simp
  then show ?thesis using l h by (simp add: fl_Finite)
qed

lemma fl_exact: "representable x \<Longrightarrow> 0 \<le> x \<Longrightarrow> x < 2 ^ 1024 \<Longrightarrow> fl x = Finite x"
  using fl_between [of x x x] by simp

lemma fl_of_int: "0 \<le> n \<Longrightarrow> n \<le> 2 ^ 53 \<Longrightarrow> fl (of_int n) = Finite (of_int n)"
proof (rule fl_exact)
  assume n: "0 \<le> n" "n \<le> 2 ^ 53"
  show "representable (real_of_int n)" using n by (intro representable_int) simp
  show "0 \<le> real_of_int n" using n by simp
  have "real_of_int n \<le> real_of_int (2 ^ 53)" using n(2) by (simp only: of_int_le_iff)
  also have "\<dots> < 2 ^ 1024" by simp
  finally show "real_of_int n < 2 ^ 1024" .
qed

lemma fl_numeral: "(numeral k :: int) \<le> 2 ^ 53 \<Longrightarrow> fl (numeral k) = Finite (numeral k)"
  using fl_of_int [of "numeral k"] by simp

lemma fl_0: "fl 0 = Finite 0"
  using fl_of_int [of 0] by simp

lemma fl_1: "fl 1 = Finite 1"
  using fl_of_int [of 1] by simp

text \<open>
  A call on which doubles and exact arithmetic part: for base delay 50 and a draw of 0.16
  the exact product is 29, and the delay computed in doubles is 28.
\<close>

lemma calculateBackoffDelay_rounds: "calculateBackoffDelay 0 50 (16 / 100) = Finite 28"
  by (simp add: calculateBackoffDelay_def fl_def rn_def quantum_def expo_def
        round_half_even_def bits.simps Let_def)

subsection \<open>Errors and the executor\<close>

lemma new_BearWatchError_sel:
  "code (new_BearWatchError m c st b ctx cs) = c"
  "statusCode (new_BearWatchError m c st b ctx cs) = st"
  "msg (new_BearWatchError m c st b ctx cs) = m"
  "retryAfter (new_BearWatchError m c st b ctx cs) = None"
  by (simp_all add: new_BearWatchError_def)

lemma known_code_iff:
  "known_code k = Some c \<longleftrightarrow>
     (k, c) \<in> {(''INVALID_API_KEY'', INVALID_API_KEY), (''JOB_NOT_FOUND'', JOB_NOT_FOUND),
               (''RATE_LIMITED'', RATE_LIMITED), (''SERVER_ERROR'', SERVER_ERROR),
               (''INVALID_RESPONSE'', INVALID_RESPONSE), (''NETWORK_ERROR'', NETWORK_ERROR),
               (''TIMEOUT'', TIMEOUT)}"
  unfolding known_code_def by (cases c) simp_all


lemma try_block_parsed:
  assumes "\<not> ok r" and "isJson r" and "status r \<noteq> 429"
    and "JSON_parse rt (responseText r) = Some data"
  shows "try_block rt ctx r =
     Inl (Sdk (new_BearWatchError
                (case getErrorMessage data of
                   Some m \<Rightarrow> Text m
                 | None \<Rightarrow> Request_failed_with_status (status r))
                (mapStatusToErrorCode (status r) (Some data))
                (Some (status r)) (Some (responseText r)) ctx None))"
  using assms by (simp add: try_block_def Let_def)

lemma try_block_429:
  assumes "status r = 429"
  shows "try_block rt ctx r =
     Inl (Sdk ((new_BearWatchError (Text ''Rate limit exceeded'') RATE_LIMITED (Some 429)
                 (Some (responseText r)) ctx None)\<lparr>retryAfter := Retry_After r\<rparr>))"
  using assms by (simp add: try_block_def ok_def)

lemma catch_block_Sdk: "catch_block config ctx reason (Sdk e) = Sdk e"
  by (simp add: catch_block_def)

lemma executeRequest_Responded:
  "fetched a = Responded r \<Longrightarrow> try_block rt (req_context ro) r = Inl (Sdk e) \<Longrightarrow>
   executeRequest rt config ro a = Inl (Sdk e)"
  by (simp add: executeRequest_def catch_block_Sdk)

lemma executeRequest_not_ok_parsed:
  assumes "fetched a = Responded r" and "\<not> ok r" and "isJson r"
    and "JSON_parse rt (responseText r) = Some data"
  shows "\<exists>e. executeRequest rt config ro a = Inl (Sdk e)
           \<and> code e = mapStatusToErrorCode (status r) (Some data)
           \<and> statusCode e = Some (status r)"
proof (cases "status r = 429")
  case True
  have "mapStatusToErrorCode (status r) (Some data) = RATE_LIMITED"
    using True by (simp add: mapStatusToErrorCode_def)
  then show ?thesis
    using executeRequest_Responded [OF assms(1) try_block_429 [OF True]] True
    by (simp add: new_BearWatchError_sel)
next
  case False
  show ?thesis
    using executeRequest_Responded [OF assms(1) try_block_parsed [OF assms(2,3) False assms(4)]]
    by (simp add: new_BearWatchError_sel)
qed

subsection \<open>The retry loop, one iteration at a time\<close>

lemma loop_retry:
  assumes "int a < maxRetries options" and "fn a = Inl (Sdk e)" and "isRetryable e"
  shows "withRetry_loop rt fn options a le sl =
         withRetry_loop rt fn options (Suc a) (Some e) (sl @ [retry_delay rt options a e])"
  using assms by (subst withRetry_loop.simps) simp

lemma loop_success:
  assumes "int a \<le> maxRetries options" and "fn a = Inr v"
  shows "withRetry_loop rt fn options a le sl = \<lparr>outcome = Inr v, attempts = Suc a, sleeps = sl\<rparr>"
  using assms by (subst withRetry_loop.simps) simp

lemma loop_throw:
  assumes "int a \<le> maxRetries options" and "fn a = Inl t"
    and "\<And>e. t = Sdk e \<Longrightarrow> \<not> isRetryable e \<or> maxRetries options \<le> int a"
  shows "withRetry_loop rt fn options a le sl = \<lparr>outcome = Inl t, attempts = Suc a, sleeps = sl\<rparr>"
proof (cases t)
  case (Sdk e)
  with assms show ?thesis by (subst withRetry_loop.simps) auto
next
  case (Foreign v)
  with assms show ?thesis by (subst withRetry_loop.simps) simp
next
  case Undefined
  with assms show ?thesis by (subst withRetry_loop.simps) simp
qed

text \<open>
  Once the loop is entered with \<open>attempt \<le> maxRetries\<close>, it invokes \<open>fn\<close> at least
  once more and never beyond index \<open>maxRetries\<close>, it settles with the outcome of its last
  invocation, and it sleeps once per further invocation.
\<close>

lemma loop_invariant:
  "int a \<le> maxRetries options \<Longrightarrow>
   Suc a \<le> attempts (withRetry_loop rt fn options a le sl)
   \<and> int (attempts (withRetry_loop rt fn options a le sl)) \<le> maxRetries options + 1
   \<and> outcome (withRetry_loop rt fn options a le sl)
       = fn (attempts (withRetry_loop rt fn options a le sl) - 1)
   \<and> length (sleeps (withRetry_loop rt fn options a le sl))
       = length sl + (attempts (withRetry_loop rt fn options a le sl) - Suc a)"
proof (induction rt fn options a le sl rule: withRetry_loop.induct)
  case (1 rt fn options attempt lastError slept)
  show ?case
  proof (cases "fn attempt")
    case (Inr v)
    with "1.prems" show ?thesis by (simp add: loop_success)
  next
    case (Inl t)
    show ?thesis
    proof (cases "\<exists>e. t = Sdk e \<and> isRetryable e \<and> int attempt < maxRetries options")
      case True
      then obtain e where e: "t = Sdk e" "isRetryable e" "int attempt < maxRetries options"
        by blast
      have step: "withRetry_loop rt fn options attempt lastError slept =
            withRetry_loop rt fn options (Suc attempt) (Some e)
              (slept @ [retry_delay rt options attempt e])"
        using e Inl by (simp add: loop_retry)
      have "int (Suc attempt) \<le> maxRetries options" using e(3) by simp
      from "1.IH" [OF "1.prems" Inl e(1) _ this] e(2,3)
      show ?thesis unfolding step by auto
    next
      case False
      have "withRetry_loop rt fn options attempt lastError slept
                 = \<lparr>outcome = Inl t, attempts = Suc attempt, sleeps = slept\<rparr>"
      proof (rule loop_throw)
        show "int attempt \<le> maxRetries options" by (rule "1.prems")
        show "fn attempt = Inl t" by (rule Inl)
        show "\<not> isRetryable e \<or> maxRetries options \<le> int attempt" if "t = Sdk e" for e
          using False that by auto
      qed
      then show ?thesis using Inl "1.prems" by simp
    qed
  qed
qed

text \<open>
  After \<open>k\<close> retryable failures the call stands at the head of iteration \<open>k\<close>, having
  slept \<open>k\<close> times.
\<close>

lemma loop_reach:
  assumes "\<forall>j<k. \<exists>e. fn j = Inl (Sdk e) \<and> isRetryable e" and "int k \<le> maxRetries options"
  shows "\<exists>le sl. withRetry rt fn options = withRetry_loop rt fn options k le sl
           \<and> length sl = k
           \<and> (\<forall>j<k. \<forall>e. fn j = Inl (Sdk e) \<longrightarrow> sl ! j = retry_delay rt options j e)"
  using assms
proof (induction k)
  case 0
  show ?case by (simp add: withRetry_def) blast
next
  case (Suc k)
  then obtain le sl where IH: "withRetry rt fn options = withRetry_loop rt fn options k le sl"
    "length sl = k" "\<forall>j<k. \<forall>e. fn j = Inl (Sdk e) \<longrightarrow> sl ! j = retry_delay rt options j e"
    by force
  from Suc.prems obtain e where e: "fn k = Inl (Sdk e)" "isRetryable e" by blast
  have "withRetry_loop rt fn options k le sl =
        withRetry_loop rt fn options (Suc k) (Some e) (sl @ [retry_delay rt options k e])"
    using Suc.prems(2) e by (intro loop_retry) auto
  moreover have "\<forall>j<Suc k. \<forall>e'. fn j = Inl (Sdk e') \<longrightarrow>
      (sl @ [retry_delay rt options k e]) ! j = retry_delay rt options j e'"
    using IH(2,3) e(1) by (auto simp: nth_append less_Suc_eq)
  ultimately show ?case using IH(1,2) by (intro exI conjI) (auto simp: IH(1))
qed


subsection \<open>The retry hint parser on literals\<close>

lemma parseInt_Nil: "parseInt [] = NaN"
  by (simp add: parseInt_def)

lemma parseInt_one: "parseInt ''1'' = Finite 1"
  by (simp add: parseInt_def is_ws_def is_digit_def digits_value_def fl_1)

text \<open>
  The examples of the specification, then values that start with digits: \<open>parseInt\<close>
  reads the digits as seconds, whatever follows them. The last value has more digits than a
  double holds.
\<close>

lemma parseRetryAfter_examples:
  "parseRetryAfter dp now (Some ''1'') = Some (Finite 1000)"
  "parseRetryAfter dp now None = None"
  "dp ''not-a-date'' = None \<Longrightarrow> parseRetryAfter dp now (Some ''not-a-date'') = None"
  "parseRetryAfter dp now (Some ''2030-01-01T00:00:00Z'') = Some (Finite 2030000)"
  "parseRetryAfter dp now (Some ''12abc'') = Some (Finite 12000)"
  by (simp_all add: parseRetryAfter_def parseInt_def is_ws_def is_digit_def digits_value_def
        fl_1 fl_numeral Let_def)

lemma parseRetryAfter_beyond_2_53:
  "parseRetryAfter dp now (Some ''9007199254740993'') = Some (Finite 9007199254740992000)"
  by (simp add: parseRetryAfter_def parseInt_def is_ws_def is_digit_def digits_value_def
        fl_def rn_def quantum_def expo_def round_half_even_def bits.simps Let_def)

text \<open>
  A date in the past gives 0 and one in the future the distance to it, for time values a
  double holds exactly.
\<close>

lemma parseRetryAfter_date:
  assumes "parseInt s = NaN" and "s \<noteq> []" and "dp s = Some t"
    and "0 \<le> t" and "t \<le> 2 ^ 53" and "0 \<le> now" and "now \<le> 2 ^ 53"
  shows "parseRetryAfter dp now (Some s) = Some (Finite (of_int (max 0 (t - now))))"
proof -
  have t: "fl (of_int t) = Finite (of_int t)" by (rule fl_of_int [OF assms(4,5)])
  have n: "fl (of_int now) = Finite (of_int now)" by (rule fl_of_int [OF assms(6,7)])
  have d: "fl (real_of_int t - real_of_int now) = Finite (of_int (t - now))"
  proof (cases "now \<le> t")
    case True
    then have "fl (of_int (t - now)) = Finite (of_int (t - now))"
      using assms(5,6) by (intro fl_of_int) simp_all
    then show ?thesis by simp
  next
    case False
    then have "fl (of_int (now - t)) = Finite (of_int (now - t))"
      using assms(4,7) by (intro fl_of_int) simp_all
    then have "rn (real_of_int (now - t)) = real_of_int (now - t)"
      by (auto simp: fl_def Let_def split: if_splits)
    moreover have "rn (- real_of_int (now - t)) = - rn (real_of_int (now - t))"
      using False by (simp add: rn_def)
    ultimately have r: "rn (real_of_int t - real_of_int now) = real_of_int (t - now)"
      by simp
    have "\<bar>real_of_int (t - now)\<bar> \<le> real_of_int (2 ^ 53)"
    proof -
      have "\<bar>t - now\<bar> \<le> 2 ^ 53" using assms(4,7) False by simp
      then show ?thesis by (simp only: of_int_abs [symmetric] of_int_le_iff)
    qed
    also have "\<dots> < 2 ^ 1024" by simp
    finally have "\<bar>rn (real_of_int t - real_of_int now)\<bar> < 2 ^ 1024" by (simp only: r)
    then show ?thesis using fl_Finite r by simp
  qed
  show ?thesis
    using assms(1,2,3) by (simp add: parseRetryAfter_def t n d of_int_max)
qed

subsection \<open>The sample runs\<close>

lemma run_401:
  "executeRequest sample_runtime sample_config sample_options (net_401 k) = Inl (Sdk error_401)"
  by (simp add: executeRequest_def try_block_def catch_block_def net_401_def responds_def
        ok_def isJson_def sample_runtime_def sample_JSON_parse_def sample_options_def
        body_401_def mapStatusToErrorCode_def getErrorMessage_def error_401_def)

lemma run_502:
  "executeRequest sample_runtime sample_config sample_options (net_502_html k) = Inl (Sdk error_502)"
  by (simp add: executeRequest_def try_block_def catch_block_def net_502_html_def responds_def
        ok_def isJson_def sample_options_def error_502_def)


lemma run_user_abort:
  "executeRequest sample_runtime sample_config sample_options (net_user_abort k)
     = Inl (Foreign user_abort)"
  by (simp add: executeRequest_def catch_block_def net_user_abort_def user_abort_def)

lemma request_sample:
  "request sample_runtime sample_config sample_options net
     = withRetry sample_runtime
         (\<lambda>k. executeRequest sample_runtime sample_config sample_options (net k)) sample_policy"
  by (simp add: request_def sample_options_def sample_config_def sample_policy_def)

lemma error_401_fatal: "\<not> isRetryable error_401"
  by (simp add: isRetryable_def error_401_def new_BearWatchError_def
        RETRYABLE_STATUS_CODES_def RETRYABLE_ERROR_CODES_def)

lemma error_502_retryable: "isRetryable error_502"
  by (simp add: isRetryable_def error_502_def new_BearWatchError_def
        RETRYABLE_STATUS_CODES_def RETRYABLE_ERROR_CODES_def)

subsection \<open>Responses 401 and 429 under the retry loop\<close>

lemma executeRequest_401:
  assumes "fetched a = Responded r" and "status r = 401"
  shows "\<exists>e. executeRequest rt config ro a = Inl (Sdk e) \<and> \<not> isRetryable e
           \<and> statusCode e = Some 401
           \<and> (code e = INVALID_API_KEY \<or> code e = INVALID_RESPONSE)"
proof -
  have nok: "\<not> ok r" using assms(2) by (simp add: ok_def)
  have fatal: "\<not> isRetryable (new_BearWatchError m c (Some 401) b ctx cs)"
    if "c = INVALID_API_KEY \<or> c = INVALID_RESPONSE" for m c b ctx cs
    using that
    by (auto simp: isRetryable_def new_BearWatchError_def RETRYABLE_STATUS_CODES_def
          RETRYABLE_ERROR_CODES_def)
  have concl: ?thesis
    if "try_block rt (req_context ro) r = Inl (Sdk (new_BearWatchError m c (Some 401) b ctx cs))"
      and "c = INVALID_API_KEY \<or> c = INVALID_RESPONSE" for m c b ctx cs
    using executeRequest_Responded [OF assms(1) that(1), of config] fatal [OF that(2)] that(2)
    by (simp add: new_BearWatchError_sel)
  show ?thesis
  proof (cases "isJson r")
    case False
    then show ?thesis using assms(2) nok by (intro concl [where c = INVALID_RESPONSE]) (simp_all add: try_block_def)
  next
    case True
    show ?thesis
    proof (cases "JSON_parse rt (responseText r)")
      case None
      then show ?thesis using True assms(2) nok by (intro concl [where c = INVALID_RESPONSE]) (simp_all add: try_block_def)
    next
      case (Some data)
      have "mapStatusToErrorCode (status r) (Some data) = INVALID_API_KEY"
        using assms(2) by (simp add: mapStatusToErrorCode_def)
      then show ?thesis
        using try_block_parsed [OF nok True _ Some, of "req_context ro"] assms(2)
        by (intro concl [where c = INVALID_API_KEY]) simp_all
    qed
  qed
qed

lemma request_401:
  assumes "fetched (net 0) = Responded r" and "status r = 401" and "0 \<le> maxRetries_cfg config"
  shows "attempts (request rt config ro net) = 1
       \<and> (\<exists>e. outcome (request rt config ro net) = Inl (Sdk e) \<and> \<not> isRetryable e
              \<and> statusCode e = Some 401)"
proof -
  from executeRequest_401 [OF assms(1,2), of rt config ro] obtain e
    where e: "executeRequest rt config ro (net 0) = Inl (Sdk e)" "\<not> isRetryable e"
      "statusCode e = Some 401" "code e = INVALID_API_KEY \<or> code e = INVALID_RESPONSE"
    by (elim exE conjE)
  show ?thesis
  proof (cases "retry ro = Some False")
    case True
    then show ?thesis using e by (simp add: request_def)
  next
    case False
    let ?opts = "\<lparr>maxRetries = maxRetries_cfg config, baseDelay = retryDelay config\<rparr>"
    have "withRetry_loop rt (\<lambda>k. executeRequest rt config ro (net k)) ?opts 0 None []
          = \<lparr>outcome = Inl (Sdk e), attempts = Suc 0, sleeps = []\<rparr>"
    proof (rule loop_throw)
      show "int 0 \<le> maxRetries ?opts" using assms(3) by simp
      show "executeRequest rt config ro (net 0) = Inl (Sdk e)" by (rule e(1))
      show "\<not> isRetryable e' \<or> maxRetries ?opts \<le> int 0" if "Sdk e = Sdk e'" for e'
        using that e(2) by simp
    qed
    then show ?thesis using False e by (simp add: request_def withRetry_def)
  qed
qed


section \<open>The retryability verdict\<close>

text \<open>
  Claim C1. \<open>isRetryable e\<close> holds exactly when the code of \<open>e\<close> is one of
  \<open>RATE_LIMITED\<close>, \<open>SERVER_ERROR\<close>, \<open>NETWORK_ERROR\<close>, \<open>TIMEOUT\<close>, or its
  status code is one of 429, 500, 502, 503, 504; an error whose code is
  \<open>INVALID_API_KEY\<close>, \<open>JOB_NOT_FOUND\<close> or \<open>INVALID_RESPONSE\<close> and whose status is
  not in that list is not retryable.
\<close>

theorem isRetryable_verdict:
  "(isRetryable e \<longleftrightarrow>
      code e \<in> {RATE_LIMITED, SERVER_ERROR, NETWORK_ERROR, TIMEOUT} \<or>
      (\<exists>s. statusCode e = Some s \<and> s \<in> {429, 500, 502, 503, 504}))
   \<and> (code e \<in> {INVALID_API_KEY, JOB_NOT_FOUND, INVALID_RESPONSE} \<and>
        (\<forall>s. statusCode e = Some s \<longrightarrow> s \<notin> {429, 500, 502, 503, 504})
        \<longrightarrow> \<not> isRetryable e)"
  by (cases "code e"; cases "statusCode e")
     (auto simp: isRetryable_def RETRYABLE_STATUS_CODES_def RETRYABLE_ERROR_CODES_def)

theorem isRetryable_verdict_witness:
  "code (new_BearWatchError (Text ''Not found'') JOB_NOT_FOUND (Some 404) None None None)
     = JOB_NOT_FOUND
   \<and> statusCode (new_BearWatchError (Text ''Not found'') JOB_NOT_FOUND (Some 404) None None None)
     = Some 404
   \<and> \<not> isRetryable (new_BearWatchError (Text ''Not found'') JOB_NOT_FOUND (Some 404) None None None)
   \<and> isRetryable (new_BearWatchError (Text ''Rate limited'') INVALID_RESPONSE (Some 429) None None None)"
  using isRetryable_verdict [of "new_BearWatchError (Text ''Not found'') JOB_NOT_FOUND (Some 404) None None None"]
    isRetryable_verdict [of "new_BearWatchError (Text ''Rate limited'') INVALID_RESPONSE (Some 429) None None None"]
  by (simp add: new_BearWatchError_def)

section \<open>The retry loop\<close>

text \<open>
  Claim C2. Under a policy with \<open>maxRetries \<ge> 0\<close>, \<open>withRetry\<close> invokes the attempt
  function at least once and at most \<open>maxRetries + 1\<close> times, and settles with the outcome
  of its last invocation. A first attempt that fails with a typed error that is not
  retryable is the only attempt, and its error is thrown; more generally such a failure of
  attempt \<open>k\<close> ends the call after \<open>k + 1\<close> attempts. When every attempt up to index
  \<open>maxRetries\<close> fails with a retryable error, \<open>maxRetries + 1\<close> attempts are made and
  the error of the last one is thrown.
\<close>

theorem withRetry_attempts:
  assumes "0 \<le> maxRetries options"
  shows "1 \<le> attempts (withRetry rt fn options)
       \<and> int (attempts (withRetry rt fn options)) \<le> maxRetries options + 1
       \<and> outcome (withRetry rt fn options) = fn (attempts (withRetry rt fn options) - 1)
       \<and> (fn 0 = Inl (Sdk e) \<and> \<not> isRetryable e \<longrightarrow>
            attempts (withRetry rt fn options) = 1
            \<and> outcome (withRetry rt fn options) = Inl (Sdk e))
       \<and> ((\<forall>j<k. \<exists>e'. fn j = Inl (Sdk e') \<and> isRetryable e') \<and> int k \<le> maxRetries options
            \<and> fn k = Inl (Sdk e) \<and> \<not> isRetryable e \<longrightarrow>
            attempts (withRetry rt fn options) = Suc k
            \<and> outcome (withRetry rt fn options) = Inl (Sdk e))
       \<and> ((\<forall>j. int j \<le> maxRetries options \<longrightarrow> (\<exists>e'. fn j = Inl (Sdk e') \<and> isRetryable e')) \<longrightarrow>
            attempts (withRetry rt fn options) = nat (maxRetries options) + 1
            \<and> outcome (withRetry rt fn options) = fn (nat (maxRetries options)))
       \<and> (fetched (net 0) = Responded r \<and> status r = 401 \<and> 0 \<le> maxRetries_cfg config \<longrightarrow>
            attempts (request rt config ro net) = 1
            \<and> (\<exists>e'. outcome (request rt config ro net) = Inl (Sdk e') \<and> \<not> isRetryable e'
                   \<and> statusCode e' = Some 401))"
proof -
  let ?r = "withRetry rt fn options"
  have inv: "Suc 0 \<le> attempts ?r \<and> int (attempts ?r) \<le> maxRetries options + 1
             \<and> outcome ?r = fn (attempts ?r - 1)"
    using loop_invariant [of 0 options rt fn None "[]"] assms by (simp add: withRetry_def)
  have stop: "attempts ?r = Suc k \<and> outcome ?r = Inl (Sdk e)"
    if pre: "\<forall>j<k. \<exists>e'. fn j = Inl (Sdk e') \<and> isRetryable e'"
      and k: "int k \<le> maxRetries options" and fk: "fn k = Inl (Sdk e)" and nr: "\<not> isRetryable e"
    for k
  proof -
    from loop_reach [OF pre k] obtain le sl
      where "?r = withRetry_loop rt fn options k le sl" by blast
    moreover have "withRetry_loop rt fn options k le sl
                   = \<lparr>outcome = Inl (Sdk e), attempts = Suc k, sleeps = sl\<rparr>"
      using nr by (intro loop_throw k fk) auto
    ultimately show ?thesis by simp
  qed
  have first: "attempts ?r = 1 \<and> outcome ?r = Inl (Sdk e)"
    if "fn 0 = Inl (Sdk e)" "\<not> isRetryable e"
    using stop [of 0] that assms by simp
  have exhausted: "attempts ?r = nat (maxRetries options) + 1
                   \<and> outcome ?r = fn (nat (maxRetries options))"
    if all: "\<forall>j. int j \<le> maxRetries options \<longrightarrow> (\<exists>e'. fn j = Inl (Sdk e') \<and> isRetryable e')"
  proof -
    let ?m = "nat (maxRetries options)"
    have m: "int ?m \<le> maxRetries options" "maxRetries options \<le> int ?m" using assms by simp_all
    have pre: "\<forall>j<?m. \<exists>e'. fn j = Inl (Sdk e') \<and> isRetryable e'" using all by auto
    from all m(1) obtain e' where e': "fn ?m = Inl (Sdk e')" by blast
    from loop_reach [OF pre m(1)] obtain le sl
      where "?r = withRetry_loop rt fn options ?m le sl" by blast
    moreover have "withRetry_loop rt fn options ?m le sl
                   = \<lparr>outcome = Inl (Sdk e'), attempts = Suc ?m, sleeps = sl\<rparr>"
      using m(2) by (intro loop_throw m(1) e') auto
    ultimately show ?thesis using e' by simp
  qed
  have unauthorized: "attempts (request rt config ro net) = 1
            \<and> (\<exists>e'. outcome (request rt config ro net) = Inl (Sdk e') \<and> \<not> isRetryable e'
                   \<and> statusCode e' = Some 401)"
    if "fetched (net 0) = Responded r \<and> status r = 401 \<and> 0 \<le> maxRetries_cfg config"
    using that by (elim conjE) (rule request_401)
  have general: "1 \<le> attempts ?r \<and> int (attempts ?r) \<le> maxRetries options + 1
       \<and> outcome ?r = fn (attempts ?r - 1)
       \<and> (fn 0 = Inl (Sdk e) \<and> \<not> isRetryable e \<longrightarrow>
            attempts ?r = 1 \<and> outcome ?r = Inl (Sdk e))
       \<and> ((\<forall>j<k. \<exists>e'. fn j = Inl (Sdk e') \<and> isRetryable e') \<and> int k \<le> maxRetries options
            \<and> fn k = Inl (Sdk e) \<and> \<not> isRetryable e \<longrightarrow>
            attempts ?r = Suc k \<and> outcome ?r = Inl (Sdk e))
       \<and> ((\<forall>j. int j \<le> maxRetries options \<longrightarrow> (\<exists>e'. fn j = Inl (Sdk e') \<and> isRetryable e')) \<longrightarrow>
            attempts ?r = nat (maxRetries options) + 1
            \<and> outcome ?r = fn (nat (maxRetries options)))"
    using inv stop [of k] first exhausted by auto
  from unauthorized have "fetched (net 0) = Responded r \<and> status r = 401
            \<and> 0 \<le> maxRetries_cfg config \<longrightarrow>
            attempts (request rt config ro net) = 1
            \<and> (\<exists>e'. outcome (request rt config ro net) = Inl (Sdk e') \<and> \<not> isRetryable e'
                   \<and> statusCode e' = Some 401)"
    by (rule impI)
  with general show ?thesis by (intro conjI) ((elim conjE; assumption)+)
qed

theorem withRetry_attempts_witness:
  "0 \<le> maxRetries sample_policy
   \<and> executeRequest sample_runtime sample_config sample_options (net_401 0) = Inl (Sdk error_401)
   \<and> \<not> isRetryable error_401
   \<and> attempts (request sample_runtime sample_config sample_options net_401) = 1
   \<and> outcome (request sample_runtime sample_config sample_options net_401) = Inl (Sdk error_401)
   \<and> executeRequest sample_runtime sample_config sample_options (net_502_html 3)
        = Inl (Sdk error_502)
   \<and> isRetryable error_502
   \<and> attempts (request sample_runtime sample_config sample_options net_502_html) = 4
   \<and> outcome (request sample_runtime sample_config sample_options net_502_html)
        = Inl (Sdk error_502)"
proof -
  let ?fn401 = "\<lambda>k. executeRequest sample_runtime sample_config sample_options (net_401 k)"
  let ?fn502 = "\<lambda>k. executeRequest sample_runtime sample_config sample_options (net_502_html k)"
  have p: "0 \<le> maxRetries sample_policy" by (simp add: sample_policy_def)
  note first = withRetry_attempts
      [where options = sample_policy and rt = sample_runtime and fn = ?fn401
         and e = error_401, OF p,
       THEN conjunct2, THEN conjunct2, THEN conjunct2, THEN conjunct1]
  note exhausted = withRetry_attempts
      [where options = sample_policy and rt = sample_runtime and fn = ?fn502, OF p,
       THEN conjunct2, THEN conjunct2, THEN conjunct2, THEN conjunct2, THEN conjunct2,
       THEN conjunct1]
  have a: "attempts (request sample_runtime sample_config sample_options net_401) = 1
         \<and> outcome (request sample_runtime sample_config sample_options net_401)
             = Inl (Sdk error_401)"
    using first run_401 error_401_fatal by (simp add: request_sample)
  have b: "attempts (request sample_runtime sample_config sample_options net_502_html) = 4
         \<and> outcome (request sample_runtime sample_config sample_options net_502_html)
             = Inl (Sdk error_502)"
    using exhausted run_502 error_502_retryable
    by (simp add: request_sample sample_policy_def)
  show ?thesis using p a b run_401 run_502 error_401_fatal error_502_retryable by simp
qed



text \<open>
  When attempt \<open>k\<close> of \<open>withRetry\<close> raises anything that is not a
  \<open>BearWatchError\<close>, the call rejects with that very value after \<open>k + 1\<close> attempts and
  the \<open>k\<close> sleeps that preceded it: no further attempt, no further sleep, whatever the
  policy. In the executor, an \<open>AbortError\<close> whose signal reason is not the timeout marker
  is rethrown as it is, and a rejected fetch becomes a \<open>TIMEOUT\<close> error only when the
  value it rejects with is an \<open>Error\<close> named \<open>AbortError\<close> and the signal reason is
  the timeout marker.
\<close>

lemma foreign_error_passthrough:
  assumes "\<forall>j<k. \<exists>e'. fn j = Inl (Sdk e') \<and> isRetryable e'"
    and "int k \<le> maxRetries options"
    and "fn k = Inl t" and "\<forall>e. t \<noteq> Sdk e"
  shows "outcome (withRetry rt fn options) = Inl t
       \<and> attempts (withRetry rt fn options) = Suc k
       \<and> length (sleeps (withRetry rt fn options)) = k
       \<and> (fetched a = Rejected v \<and> is_Error v \<and> err_name v = ''AbortError''
            \<and> signal_reason a \<noteq> Some ''timeout''
            \<longrightarrow> executeRequest rt config ro a = Inl (Foreign v))
       \<and> (fetched a = Rejected v \<longrightarrow>
            ((\<exists>e. executeRequest rt config ro a = Inl (Sdk e) \<and> code e = TIMEOUT)
              \<longleftrightarrow> is_Error v \<and> err_name v = ''AbortError''
                   \<and> signal_reason a = Some ''timeout''))"
proof -
  let ?r = "withRetry rt fn options"
  from loop_reach [OF assms(1,2)] obtain le sl
    where r: "?r = withRetry_loop rt fn options k le sl" and len: "length sl = k" by blast
  have "withRetry_loop rt fn options k le sl = \<lparr>outcome = Inl t, attempts = Suc k, sleeps = sl\<rparr>"
    using assms(4) by (intro loop_throw assms(2,3)) auto
  then have loop: "outcome ?r = Inl t \<and> attempts ?r = Suc k \<and> length (sleeps ?r) = k"
    using len by (simp add: r)
  have abort: "executeRequest rt config ro a = Inl (Foreign v)"
    if "fetched a = Rejected v" "is_Error v" "err_name v = ''AbortError''"
       "signal_reason a \<noteq> Some ''timeout''"
    using that by (simp add: executeRequest_def catch_block_def)
  have timeout_iff: "(\<exists>e. executeRequest rt config ro a = Inl (Sdk e) \<and> code e = TIMEOUT)
              \<longleftrightarrow> is_Error v \<and> err_name v = ''AbortError'' \<and> signal_reason a = Some ''timeout''"
    if "fetched a = Rejected v"
    using that by (auto simp: executeRequest_def catch_block_def new_BearWatchError_def)
  show ?thesis using loop abort timeout_iff by blast
qed

lemma user_abort_sample_run:
  "int 0 \<le> maxRetries sample_policy
   \<and> executeRequest sample_runtime sample_config sample_options (net_user_abort 0)
        = Inl (Foreign user_abort)
   \<and> outcome (request sample_runtime sample_config sample_options net_user_abort)
        = Inl (Foreign user_abort)
   \<and> attempts (request sample_runtime sample_config sample_options net_user_abort) = 1
   \<and> sleeps (request sample_runtime sample_config sample_options net_user_abort) = []"
proof -
  let ?fn = "\<lambda>k. executeRequest sample_runtime sample_config sample_options (net_user_abort k)"
  have h1: "\<forall>j<0. \<exists>e'. ?fn j = Inl (Sdk e') \<and> isRetryable e'" by simp
  have h2: "int 0 \<le> maxRetries sample_policy" by (simp add: sample_policy_def)
  have h3: "?fn 0 = Inl (Foreign user_abort)" by (rule run_user_abort)
  have h4: "\<forall>e. Foreign user_abort \<noteq> Sdk e" by simp
  note t = foreign_error_passthrough
      [where k = 0 and fn = ?fn and options = sample_policy and t = "Foreign user_abort"
         and rt = sample_runtime, OF h1 h2 h3 h4]
  have a: "outcome (request sample_runtime sample_config sample_options net_user_abort)
             = Inl (Foreign user_abort)"
    using t [THEN conjunct1] by (simp add: request_sample)
  have b: "attempts (request sample_runtime sample_config sample_options net_user_abort) = 1"
    using t [THEN conjunct2, THEN conjunct1] by (simp add: request_sample)
  have c: "sleeps (request sample_runtime sample_config sample_options net_user_abort) = []"
    using t [THEN conjunct2, THEN conjunct2, THEN conjunct1] by (simp add: request_sample)
  show ?thesis using h2 h3 a b c by simp
qed

text \<open>
  Claim C8 at the executor's own timeout. When the timer fires, \<open>fetch\<close> rejects with the
  abort reason, the string \<open>'timeout'\<close>. That value is not an \<open>Error\<close>, so the test for
  an \<open>AbortError\<close> fails and the last branch of the \<open>catch\<close> block wraps it as a
  \<open>NETWORK_ERROR\<close> with the message of an unknown error: the internal timeout is not
  wrapped as \<open>TIMEOUT\<close>.
\<close>

theorem internal_timeout_network_error:
  "executeRequest sample_runtime sample_config sample_options timer_fired
     = Inl (Sdk (new_BearWatchError (Text ''Unknown error occurred'') NETWORK_ERROR None None None
                  None))"
  by (simp add: executeRequest_def catch_block_def timer_fired_def thrown_string_def
        sample_options_def)

section \<open>Backoff with jitter\<close>

text \<open>
  Two inputs on which claim C5 fails. With base delay 5, attempt 0 and a draw of 0 (jitter
  exactly 0.5) the product is 2.5 and its floor, 2, lies below the lower end
  \<open>5 * 2 ^ 0 * 0.5 = 2.5\<close> of the interval. With attempt 1024 the power of two is
  \<open>Infinity\<close>, and so is the delay: not an integer.
\<close>

theorem calculateBackoffDelay_counterexample:
  "(0::int) < 5 \<and> (0::real) \<le> 0 \<and> (0::real) \<le> 1
   \<and> calculateBackoffDelay 0 5 0 = Finite 2
   \<and> \<not> (real_of_int 5 * 2 ^ 0 * 0.5 \<le> (2::real))
   \<and> calculateBackoffDelay 1024 1 0 = PosInf"
proof -
  have a: "calculateBackoffDelay 0 5 0 = Finite 2"
    by (simp add: calculateBackoffDelay_def fl_def rn_def quantum_def expo_def
          round_half_even_def bits.simps Let_def)
  have p: "fl (2 ^ 1024) = PosInf"
  proof -
    have "representable (of_int 1 * 2 powi 1024)" by (rule representableI) simp_all
    then have "rn (2 ^ 1024) = 2 ^ 1024" by (intro rn_exact) simp_all
    then show ?thesis by (simp add: fl_def)
  qed
  have o: "fl (of_int 1) = Finite 1"
    using fl_exact [OF representable_consts(2)] by simp
  have h: "fl 0 = Finite 0"
    using fl_exact [OF representable_consts(1)] by simp
  have e: "num_mul (fl (of_int 1)) (fl (2 ^ 1024)) = PosInf"
    by (simp only: o p num_mul.simps) simp
  have j: "num_add (Finite (1 / 2)) (num_mul (fl 0) (Finite (1 / 2))) = Finite (1 / 2)"
    using fl_exact [OF representable_consts(1)] fl_exact [OF representable_consts(3)]
    by (simp add: h)
  have b: "calculateBackoffDelay 1024 1 0 = PosInf"
    unfolding calculateBackoffDelay_def Let_def e j by simp
  show ?thesis using a b by simp
qed

text \<open>
  Claim C5, amended. For every attempt, every integer base delay above 0 (an integer that
  is a double) whose exponential delay \<open>baseDelay * 2 ^ attempt\<close> is a finite double
  (below \<open>2\<^sup>1\<^sup>0\<^sup>2\<^sup>4\<close>), and every draw between 0 and 1 (a jitter
  between 0.5 and 1.0), the delay is an integer between
  \<open>(baseDelay * 2 ^ attempt) div 2\<close> and \<open>baseDelay * 2 ^ attempt\<close>; it is at
  least \<open>baseDelay * 2 ^ attempt * 0.5\<close> whenever that product is even, that is, from
  attempt 1 on or for an even base delay.
\<close>

theorem calculateBackoffDelay_range:
  assumes "0 < baseDelayMs" and "representable (of_int baseDelayMs)"
    and "real_of_int baseDelayMs * 2 ^ attempt < 2 ^ 1024"
    and "0 \<le> rnd" and "rnd \<le> 1"
  shows "\<exists>d. calculateBackoffDelay attempt baseDelayMs rnd = Finite (of_int d)
           \<and> (baseDelayMs * 2 ^ attempt) div 2 \<le> d
           \<and> d \<le> baseDelayMs * 2 ^ attempt
           \<and> (0 < attempt \<or> even baseDelayMs \<longrightarrow>
                real_of_int baseDelayMs * 2 ^ attempt * 0.5 \<le> of_int d)"
proof -
  define E where "E = baseDelayMs * 2 ^ attempt"
  have Er: "real_of_int E = real_of_int baseDelayMs * 2 ^ attempt" by (simp add: E_def)
  have E0: "0 < E" using assms(1) by (simp add: E_def)
  have Elt: "real_of_int E < 2 ^ 1024" using assms(3) by (simp add: Er)
  have b1: "1 \<le> \<bar>real_of_int baseDelayMs\<bar>" using assms(1) by simp
  have repE: "representable (real_of_int E)"
    using representable_scale [OF assms(2) b1, of "int attempt"] by (simp add: Er)
  have repH: "representable (real_of_int E / 2)"
  proof -
    have "real_of_int E / 2 = real_of_int baseDelayMs * 2 powi (int attempt - 1)"
      by (simp add: Er power_int_diff)
    then show ?thesis using representable_scale [OF assms(2) b1, of "int attempt - 1"] by simp
  qed
  \<comment> \<open>the operands\<close>
  have b: "fl (of_int baseDelayMs) = Finite (of_int baseDelayMs)"
  proof (rule fl_exact)
    show "representable (real_of_int baseDelayMs)" by (rule assms(2))
    show "0 \<le> real_of_int baseDelayMs" using assms(1) by simp
    have "real_of_int baseDelayMs \<le> real_of_int baseDelayMs * 2 ^ attempt"
      using assms(1) by (simp add: mult_le_cancel_left1)
    then show "real_of_int baseDelayMs < 2 ^ 1024" using assms(3) by (rule le_less_trans)
  qed
  have p: "fl (2 ^ attempt) = Finite (2 ^ attempt)"
  proof (rule fl_exact)
    show "representable ((2::real) ^ attempt)"
      using representableI [of 1 "int attempt"] by simp
    show "0 \<le> (2::real) ^ attempt" by simp
    have "(2::real) ^ attempt \<le> real_of_int baseDelayMs * 2 ^ attempt"
      using assms(1) by (simp add: mult_le_cancel_right1)
    then show "(2::real) ^ attempt < 2 ^ 1024" using assms(3) by (rule le_less_trans)
  qed
  have Epos: "0 \<le> real_of_int E" using E0 by simp
  have flE: "fl (real_of_int E) = Finite (real_of_int E)"
    by (rule fl_exact [OF repE Epos Elt])
  have e: "num_mul (fl (of_int baseDelayMs)) (fl (2 ^ attempt)) = Finite (of_int E)"
    by (simp add: b p Er flE [unfolded Er])
  \<comment> \<open>the jitter\<close>
  define u where "u = rn rnd"
  have u: "fl rnd = Finite u" "0 \<le> u" "u \<le> 1"
    using fl_between [OF representable_consts(1,2) _ assms(4,5)] by (simp_all add: u_def)
  define h where "h = rn (u / 2)"
  have h: "fl (u / 2) = Finite h" "0 \<le> h" "h \<le> 1 / 2"
    using fl_between [OF representable_consts(1,3), of "u / 2"] u(2,3)
    by (simp_all add: h_def)
  define j where "j = rn (1 / 2 + h)"
  have j: "fl (1 / 2 + h) = Finite j" "1 / 2 \<le> j" "j \<le> 1"
    using fl_between [OF representable_consts(3,2), of "1 / 2 + h"] h(2,3)
    by (simp_all add: j_def)
  have jit: "num_add (Finite (1 / 2)) (num_mul (fl rnd) (Finite (1 / 2))) = Finite j"
    by (simp add: u(1) h(1) j(1))
  \<comment> \<open>the product\<close>
  define P where "P = rn (of_int E * j)"
  have lo: "real_of_int E / 2 \<le> of_int E * j"
    using E0 j(2) by (simp add: field_simps)
  have hi: "of_int E * j \<le> real_of_int E"
    using E0 j(3) by (simp add: mult_le_cancel_left1)
  have P: "fl (of_int E * j) = Finite P" "real_of_int E / 2 \<le> P" "P \<le> real_of_int E"
    using fl_between [OF repH repE _ lo hi Elt] E0 by (simp_all add: P_def)
  have res: "calculateBackoffDelay attempt baseDelayMs rnd = Finite (of_int \<lfloor>P\<rfloor>)"
    by (simp add: calculateBackoffDelay_def Let_def e jit P(1))
  have a1: "E div 2 \<le> \<lfloor>P\<rfloor>"
  proof -
    have "\<lfloor>real_of_int E / 2\<rfloor> \<le> \<lfloor>P\<rfloor>" using P(2) by (rule floor_mono)
    moreover have "\<lfloor>real_of_int E / 2\<rfloor> = E div 2"
      using floor_divide_of_int_eq [of E 2, where ?'a = real] by simp
    ultimately show ?thesis by simp
  qed
  have a2: "\<lfloor>P\<rfloor> \<le> E" using P(3) by (simp add: floor_le_iff)
  have a3: "real_of_int baseDelayMs * 2 ^ attempt * 0.5 \<le> of_int \<lfloor>P\<rfloor>"
    if ev: "0 < attempt \<or> even baseDelayMs"
  proof -
    have "even E" using ev by (auto simp: E_def)
    then obtain k where k: "E = 2 * k" by (auto elim: evenE)
    have "real_of_int k \<le> P" using P(2) by (simp add: k)
    then have "k \<le> \<lfloor>P\<rfloor>" by (simp add: le_floor_iff)
    then have "real_of_int k \<le> real_of_int \<lfloor>P\<rfloor>" by (simp only: of_int_le_iff)
    moreover have "real_of_int baseDelayMs * 2 ^ attempt * 0.5 = real_of_int k"
      using Er by (simp add: k)
    ultimately show ?thesis by simp
  qed
  show ?thesis
    using res a1 a2 a3 unfolding E_def by (intro exI [of _ "\<lfloor>P\<rfloor>"]) simp
qed

theorem calculateBackoffDelay_range_witness:
  "(0::int) < 5 \<and> representable (of_int (5::int)) \<and> real_of_int 5 * 2 ^ 0 < 2 ^ 1024
   \<and> (0::real) \<le> 0 \<and> (0::real) \<le> 1
   \<and> (\<exists>d. calculateBackoffDelay 0 5 0 = Finite (of_int d)
          \<and> (5 * 2 ^ 0) div 2 \<le> d \<and> d \<le> 5 * 2 ^ 0)
   \<and> (0::int) < 500 \<and> representable (of_int (500::int)) \<and> real_of_int 500 * 2 ^ 1 < 2 ^ 1024
   \<and> (0::real) \<le> 1 / 4 \<and> (1 / 4 :: real) \<le> 1
   \<and> (\<exists>d. calculateBackoffDelay 1 500 (1 / 4) = Finite (of_int d)
          \<and> real_of_int 500 * 2 ^ 1 * 0.5 \<le> of_int d \<and> d \<le> 500 * 2 ^ 1)"
proof -
  have a: "(0::int) < 5" "representable (of_int (5::int))" "real_of_int 5 * 2 ^ 0 < 2 ^ 1024"
    "(0::real) \<le> 0" "(0::real) \<le> 1"
    using representable_int [of 5] by simp_all
  have b: "(0::int) < 500" "representable (of_int (500::int))" "real_of_int 500 * 2 ^ 1 < 2 ^ 1024"
    "(0::real) \<le> 1 / 4" "(1 / 4 :: real) \<le> 1"
    using representable_int [of 500] by simp_all
  from calculateBackoffDelay_range [OF a] obtain d
    where d: "calculateBackoffDelay 0 5 0 = Finite (of_int d)"
      "(5 * 2 ^ 0) div 2 \<le> d" "d \<le> 5 * 2 ^ 0"
    by (elim exE conjE)
  from calculateBackoffDelay_range [OF b] obtain d'
    where d': "calculateBackoffDelay 1 500 (1 / 4) = Finite (of_int d')"
      "d' \<le> 500 * 2 ^ 1"
      "0 < (1::nat) \<or> even (500::int) \<longrightarrow> real_of_int 500 * 2 ^ 1 * 0.5 \<le> of_int d'"
    by (elim exE conjE)
  have 1: "\<exists>d. calculateBackoffDelay 0 5 0 = Finite (of_int d)
          \<and> (5 * 2 ^ 0) div 2 \<le> d \<and> d \<le> 5 * 2 ^ 0"
    using d by (intro exI [of _ d] conjI)
  have "real_of_int 500 * 2 ^ 1 * 0.5 \<le> of_int d'" using d'(3) by simp
  then have 2: "\<exists>d. calculateBackoffDelay 1 500 (1 / 4) = Finite (of_int d)
          \<and> real_of_int 500 * 2 ^ 1 * 0.5 \<le> of_int d \<and> d \<le> 500 * 2 ^ 1"
    using d'(1,2) by (intro exI [of _ d'] conjI)
  show ?thesis using a b 1 2 by (intro conjI)
qed

section \<open>The retry hint\<close>

text \<open>What \<open>parseRetryAfter\<close> does, in the order of the code.\<close>

lemma parseRetryAfter_order:
  "parseRetryAfter dp now None = None"
  "parseRetryAfter dp now (Some []) = None"
  "s \<noteq> [] \<Longrightarrow> parseInt s \<noteq> NaN \<Longrightarrow> num_ge (parseInt s) (Finite 0) \<Longrightarrow>
     parseRetryAfter dp now (Some s) = Some (num_mul (parseInt s) (Finite 1000))"
  "s \<noteq> [] \<Longrightarrow> parseInt s = NaN \<or> \<not> num_ge (parseInt s) (Finite 0) \<Longrightarrow> dp s = None \<Longrightarrow>
     parseRetryAfter dp now (Some s) = None"
  by (auto simp: parseRetryAfter_def Let_def)

text \<open>
  Where the parser reads what the header says: a value made of decimal digits only is read
  whole, and a value whose first character is neither white space, a sign nor a digit (every
  HTTP-date starts with the letter of a weekday) is not read as seconds at all.
\<close>

lemma digit_not_ws: "is_digit c \<Longrightarrow> \<not> is_ws c \<and> c \<noteq> CHR ''-'' \<and> c \<noteq> CHR ''+''"
  by (auto simp: is_digit_def is_ws_def)

lemma parseInt_digits:
  assumes "s \<noteq> []" and "list_all is_digit s"
  shows "parseInt s = fl (of_int (digits_value s))"
proof -
  from assms obtain c r where s: "s = c # r" and c: "is_digit c" by (cases s) auto
  have d: "dropWhile is_ws s = s" using digit_not_ws [OF c] by (simp add: s)
  have t: "takeWhile is_digit s = s"
    using assms(2) by (simp add: takeWhile_eq_all_conv list_all_iff)
  show ?thesis
    using digit_not_ws [OF c] t s by (simp add: parseInt_def d Let_def)
qed

lemma parseInt_no_digit:
  assumes "\<not> is_ws c" and "c \<noteq> CHR ''-''" and "c \<noteq> CHR ''+''" and "\<not> is_digit c"
  shows "parseInt (c # r) = NaN"
  using assms by (simp add: parseInt_def Let_def)

text \<open>
  Claim C6 at a value with text after its digits. The header value \<open>12abc\<close> is neither
  a non-negative integer nor a date, so the claim, like the comment of the function, gives
  \<open>null\<close>; \<open>parseInt\<close> reads its leading digits and the function returns 12000. In
  the same way the ISO date \<open>2030-01-01T00:00:00Z\<close>, which the date parser accepts, is
  read as 2030 seconds and never reaches the date rule.
\<close>

theorem parseRetryAfter_trailing_text:
  "Date_parse sample_runtime ''12abc'' = None
   \<and> parseRetryAfter (Date_parse sample_runtime) (Date_now sample_runtime 0) (Some ''12abc'')
       = Some (Finite 12000)
   \<and> Date_parse sample_runtime ''2030-01-01T00:00:00Z'' = Some 1893456000000
   \<and> parseRetryAfter (Date_parse sample_runtime) (Date_now sample_runtime 0)
         (Some ''2030-01-01T00:00:00Z'')
       = Some (Finite 2030000)"
  by (simp add: sample_runtime_def parseRetryAfter_examples)

section \<open>Classification of a response\<close>

text \<open>
  Claim C3. A response with a status of 500 or more whose content type is not JSON, or
  whose text \<open>JSON.parse\<close> rejects, makes the attempt fail with a \<open>SERVER_ERROR\<close>
  that carries the status and is retryable; it is never an \<open>INVALID_RESPONSE\<close>.
\<close>

theorem server_error_unparsed:
  assumes "fetched a = Responded r" and "500 \<le> status r"
    and "\<not> isJson r \<or> JSON_parse rt (responseText r) = None"
  shows "\<exists>e. executeRequest rt config options a = Inl (Sdk e)
           \<and> code e = SERVER_ERROR \<and> statusCode e = Some (status r)
           \<and> code e \<noteq> INVALID_RESPONSE \<and> isRetryable e"
proof -
  have nok: "\<not> ok r" using assms(2) by (simp add: ok_def)
  have n429: "status r \<noteq> 429" using assms(2) by simp
  let ?e = "new_BearWatchError (Server_error (status r)) SERVER_ERROR
              (Some (status r)) (Some (responseText r)) (req_context options) None"
  have "try_block rt (req_context options) r = Inl (Sdk ?e)"
    using assms(2,3) nok n429 by (auto simp: try_block_def)
  then have "executeRequest rt config options a = Inl (Sdk ?e)"
    using assms(1) by (simp add: executeRequest_def catch_block_def)
  moreover have "code ?e = SERVER_ERROR" "statusCode ?e = Some (status r)"
    by (simp_all add: new_BearWatchError_def)
  moreover have "isRetryable ?e"
    by (simp add: isRetryable_def RETRYABLE_ERROR_CODES_def new_BearWatchError_def)
  ultimately show ?thesis by auto
qed

theorem server_error_unparsed_witness:
  "fetched (net_502_html 0)
     = Responded \<lparr>status = 502, Content_Type = Some ''text/html'', Retry_After = None,
                   responseText = ''<html>502 Bad Gateway</html>''\<rparr>
   \<and> \<not> isJson \<lparr>status = 502, Content_Type = Some ''text/html'', Retry_After = None,
                   responseText = ''<html>502 Bad Gateway</html>''\<rparr>
   \<and> (\<exists>e. executeRequest sample_runtime sample_config sample_options (net_502_html 0)
              = Inl (Sdk e)
            \<and> code e = SERVER_ERROR \<and> statusCode e = Some 502
            \<and> code e \<noteq> INVALID_RESPONSE \<and> isRetryable e)"
proof -
  let ?r = "\<lparr>status = 502, Content_Type = Some ''text/html'', Retry_After = None,
              responseText = ''<html>502 Bad Gateway</html>''\<rparr>"
  have f: "fetched (net_502_html 0) = Responded ?r"
    by (simp add: net_502_html_def responds_def)
  have s: "500 \<le> status ?r" by simp
  have j: "\<not> isJson ?r" by (simp add: isJson_def)
  then have d: "\<not> isJson ?r \<or> JSON_parse sample_runtime (responseText ?r) = None" ..
  from server_error_unparsed [OF f s d, of sample_config sample_options] f j
  show ?thesis by simp
qed

text \<open>
  Claim C7. A response that is not OK, has a JSON content type and a text that parses
  fails with the kind \<open>mapStatusToErrorCode\<close> gives for its status and parsed body, and
  carries the status. That function maps 401 to \<open>INVALID_API_KEY\<close>, 404 to
  \<open>JOB_NOT_FOUND\<close>, 429 to \<open>RATE_LIMITED\<close> and every status from 500 on to
  \<open>SERVER_ERROR\<close>; for any other status it returns the string at \<open>error.code\<close> of
  the body when that is the name of one of the seven kinds, and \<open>SERVER_ERROR\<close>
  otherwise.
\<close>

theorem error_kind_from_status:
  assumes "fetched a = Responded r" and "\<not> ok r" and "isJson r"
    and "JSON_parse rt (responseText r) = Some data"
  shows "(\<exists>e. executeRequest rt config ro a = Inl (Sdk e)
            \<and> code e = mapStatusToErrorCode (status r) (Some data)
            \<and> statusCode e = Some (status r))
       \<and> mapStatusToErrorCode 401 body = INVALID_API_KEY
       \<and> mapStatusToErrorCode 404 body = JOB_NOT_FOUND
       \<and> mapStatusToErrorCode 429 body = RATE_LIMITED
       \<and> (500 \<le> s \<longrightarrow> mapStatusToErrorCode s body = SERVER_ERROR)
       \<and> (s \<notin> {401, 404, 429} \<and> s < 500
            \<and> opt_chain (opt_chain body ''error'') ''code'' = Some (JString bodyCode)
            \<and> (bodyCode, c) \<in> {(''INVALID_API_KEY'', INVALID_API_KEY),
                   (''JOB_NOT_FOUND'', JOB_NOT_FOUND), (''RATE_LIMITED'', RATE_LIMITED),
                   (''SERVER_ERROR'', SERVER_ERROR), (''INVALID_RESPONSE'', INVALID_RESPONSE),
                   (''NETWORK_ERROR'', NETWORK_ERROR), (''TIMEOUT'', TIMEOUT)}
            \<longrightarrow> mapStatusToErrorCode s body = c)
       \<and> (s \<notin> {401, 404, 429} \<and> s < 500
            \<and> (\<forall>bodyCode. opt_chain (opt_chain body ''error'') ''code'' = Some (JString bodyCode)
                  \<longrightarrow> bodyCode \<notin> {''INVALID_API_KEY'', ''JOB_NOT_FOUND'', ''RATE_LIMITED'',
                         ''SERVER_ERROR'', ''INVALID_RESPONSE'', ''NETWORK_ERROR'', ''TIMEOUT''})
            \<longrightarrow> mapStatusToErrorCode s body = SERVER_ERROR)"
proof -
  have known: "s \<notin> {401, 404, 429} \<and> s < 500
        \<and> opt_chain (opt_chain body ''error'') ''code'' = Some (JString bodyCode)
        \<and> (bodyCode, c) \<in> {(''INVALID_API_KEY'', INVALID_API_KEY),
               (''JOB_NOT_FOUND'', JOB_NOT_FOUND), (''RATE_LIMITED'', RATE_LIMITED),
               (''SERVER_ERROR'', SERVER_ERROR), (''INVALID_RESPONSE'', INVALID_RESPONSE),
               (''NETWORK_ERROR'', NETWORK_ERROR), (''TIMEOUT'', TIMEOUT)}
        \<longrightarrow> mapStatusToErrorCode s body = c"
  proof (rule impI)
    assume h: "s \<notin> {401, 404, 429} \<and> s < 500
        \<and> opt_chain (opt_chain body ''error'') ''code'' = Some (JString bodyCode)
        \<and> (bodyCode, c) \<in> {(''INVALID_API_KEY'', INVALID_API_KEY),
               (''JOB_NOT_FOUND'', JOB_NOT_FOUND), (''RATE_LIMITED'', RATE_LIMITED),
               (''SERVER_ERROR'', SERVER_ERROR), (''INVALID_RESPONSE'', INVALID_RESPONSE),
               (''NETWORK_ERROR'', NETWORK_ERROR), (''TIMEOUT'', TIMEOUT)}"
    then have "known_code bodyCode = Some c" by (simp only: known_code_iff)
    with h show "mapStatusToErrorCode s body = c" by (simp add: mapStatusToErrorCode_def)
  qed
  have unknown: "s \<notin> {401, 404, 429} \<and> s < 500
        \<and> (\<forall>bodyCode. opt_chain (opt_chain body ''error'') ''code'' = Some (JString bodyCode)
              \<longrightarrow> bodyCode \<notin> {''INVALID_API_KEY'', ''JOB_NOT_FOUND'', ''RATE_LIMITED'',
                     ''SERVER_ERROR'', ''INVALID_RESPONSE'', ''NETWORK_ERROR'', ''TIMEOUT''})
        \<longrightarrow> mapStatusToErrorCode s body = SERVER_ERROR"
  proof (rule impI)
    assume h: "s \<notin> {401, 404, 429} \<and> s < 500
        \<and> (\<forall>bodyCode. opt_chain (opt_chain body ''error'') ''code'' = Some (JString bodyCode)
              \<longrightarrow> bodyCode \<notin> {''INVALID_API_KEY'', ''JOB_NOT_FOUND'', ''RATE_LIMITED'',
                     ''SERVER_ERROR'', ''INVALID_RESPONSE'', ''NETWORK_ERROR'', ''TIMEOUT''})"
    then have s: "s \<noteq> 401" "s \<noteq> 404" "s \<noteq> 429" "\<not> 500 \<le> s" by simp_all
    show "mapStatusToErrorCode s body = SERVER_ERROR"
    proof (cases "opt_chain (opt_chain body ''error'') ''code''")
      case None
      with s show ?thesis by (simp add: mapStatusToErrorCode_def)
    next
      case (Some v)
      show ?thesis
      proof (cases v)
        case (JString k)
        from h have "opt_chain (opt_chain body ''error'') ''code'' = Some (JString k)
                  \<longrightarrow> k \<notin> {''INVALID_API_KEY'', ''JOB_NOT_FOUND'', ''RATE_LIMITED'',
                     ''SERVER_ERROR'', ''INVALID_RESPONSE'', ''NETWORK_ERROR'', ''TIMEOUT''}"
          by (elim conjE allE [of _ k])
        with Some JString have "k \<notin> {''INVALID_API_KEY'', ''JOB_NOT_FOUND'', ''RATE_LIMITED'',
                     ''SERVER_ERROR'', ''INVALID_RESPONSE'', ''NETWORK_ERROR'', ''TIMEOUT''}"
          by (elim impE) simp_all
        then have "known_code k = None" by (simp add: known_code_def)
        with s Some JString show ?thesis by (simp add: mapStatusToErrorCode_def)
      qed (use s Some in \<open>simp_all add: mapStatusToErrorCode_def\<close>)
    qed
  qed
  have fixed: "mapStatusToErrorCode 401 body = INVALID_API_KEY"
    "mapStatusToErrorCode 404 body = JOB_NOT_FOUND"
    "mapStatusToErrorCode 429 body = RATE_LIMITED"
    "500 \<le> s \<longrightarrow> mapStatusToErrorCode s body = SERVER_ERROR"
    by (simp_all add: mapStatusToErrorCode_def)
  note ex = executeRequest_not_ok_parsed [OF assms]
  show ?thesis by (rule conjI ex fixed known unknown)+
qed

theorem error_kind_from_status_witness:
  "fetched (net_401 0)
     = Responded \<lparr>status = 401, Content_Type = Some ''application/json'', Retry_After = None,
                   responseText = body_401\<rparr>
   \<and> \<not> ok \<lparr>status = 401, Content_Type = Some ''application/json'', Retry_After = None,
                responseText = body_401\<rparr>
   \<and> isJson \<lparr>status = 401, Content_Type = Some ''application/json'', Retry_After = None,
                responseText = body_401\<rparr>
   \<and> (\<exists>e. executeRequest sample_runtime sample_config sample_options (net_401 0)
              = Inl (Sdk e)
            \<and> code e = INVALID_API_KEY \<and> statusCode e = Some 401)
   \<and> mapStatusToErrorCode 400
        (Some (JObject [(''error'', JObject [(''code'', JString ''RATE_LIMITED'')])]))
        = RATE_LIMITED
   \<and> mapStatusToErrorCode 400
        (Some (JObject [(''error'', JObject [(''code'', JString ''VALIDATION_FAILED'')])]))
        = SERVER_ERROR"
proof -
  let ?r = "\<lparr>status = 401, Content_Type = Some ''application/json'', Retry_After = None,
              responseText = body_401\<rparr>"
  let ?data = "JObject [(''success'', JBool False),
                 (''error'', JObject [(''message'', JString ''Invalid API key'')])]"
  let ?known = "Some (JObject [(''error'', JObject [(''code'', JString ''RATE_LIMITED'')])])"
  let ?unknown = "Some (JObject [(''error'', JObject [(''code'', JString ''VALIDATION_FAILED'')])])"
  have f: "fetched (net_401 0) = Responded ?r" by (simp add: net_401_def responds_def)
  have n: "\<not> ok ?r" by (simp add: ok_def)
  have j: "isJson ?r" by (simp add: isJson_def)
  have p: "JSON_parse sample_runtime (responseText ?r) = Some ?data"
    by (simp add: sample_runtime_def sample_JSON_parse_def body_401_def)
  note a = error_kind_from_status
      [OF f n j p, where config = sample_config and ro = sample_options and body = "Some ?data"]
  note b = error_kind_from_status
      [OF f n j p, where s = 400 and body = ?known and bodyCode = "''RATE_LIMITED''"
         and c = RATE_LIMITED]
  note c = error_kind_from_status [OF f n j p, where s = 400 and body = ?unknown]
  have 1: "\<exists>e. executeRequest sample_runtime sample_config sample_options (net_401 0)
              = Inl (Sdk e)
            \<and> code e = INVALID_API_KEY \<and> statusCode e = Some 401"
    using a [THEN conjunct1] a [THEN conjunct2, THEN conjunct1] by simp
  have 2: "mapStatusToErrorCode 400 ?known = RATE_LIMITED"
    using b [THEN conjunct2, THEN conjunct2, THEN conjunct2, THEN conjunct2,
             THEN conjunct2, THEN conjunct1]
    by simp
  have 3: "mapStatusToErrorCode 400 ?unknown = SERVER_ERROR"
    using c [THEN conjunct2, THEN conjunct2, THEN conjunct2, THEN conjunct2,
             THEN conjunct2, THEN conjunct2]
    by simp
  show ?thesis using f n j 1 2 3 by simp
qed

text \<open>
  For a parsed body other than \<open>null\<close> the success path reads the \<open>success\<close> flag:
  only the boolean \<open>false\<close> raises \<open>SERVER_ERROR\<close>, every other value resolves with
  the \<open>data\<close> property.
\<close>

lemma ok_body_not_null:
  assumes "fetched a = Responded r" and "ok r" and "isJson r"
    and "JSON_parse rt (responseText r) = Some data" and "data \<noteq> JNull"
  shows "get_prop data ''success'' \<noteq> Some (JBool False) \<Longrightarrow>
           executeRequest rt config ro a = Inr (get_prop data ''data'')"
    and "get_prop data ''success'' = Some (JBool False) \<Longrightarrow>
           \<exists>e. executeRequest rt config ro a = Inl (Sdk e) \<and> code e = SERVER_ERROR"
  using assms
  by (cases data; simp add: executeRequest_def try_block_def catch_block_def new_BearWatchError_def)+

text \<open>
  Claim C10 at the body \<open>null\<close>. A 200 response with content type
  \<open>application/json\<close> and text \<open>null\<close> parses, and its \<open>success\<close> field is not
  \<open>false\<close>; yet reading \<open>apiResponse.success\<close> of \<open>null\<close> raises a
  \<open>TypeError\<close>, which the \<open>catch\<close> block turns into a \<open>NETWORK_ERROR\<close>: the
  request does not resolve.
\<close>

theorem null_body_network_error:
  "executeRequest sample_runtime sample_config sample_options (net_null_body 0)
     = Inl (Sdk (new_BearWatchError (Text ''Network error'') NETWORK_ERROR None None None
                  (Some null_deref)))"
  by (simp add: executeRequest_def try_block_def catch_block_def net_null_body_def responds_def
        ok_def isJson_def sample_runtime_def sample_JSON_parse_def sample_options_def
        null_deref_def)

section \<open>Original-error priority of wrap\<close>

text \<open>
  Claim C9. When the wrapped function throws \<open>E\<close>, \<open>wrap\<close> rejects with \<open>E\<close>
  whatever the outcome of the \<open>FAILED\<close> report is, and that report is the only one made.
\<close>

theorem wrap_original_error:
  "settled (wrap ping (Inl E)) = Inl E \<and> reported (wrap ping (Inl E)) = [FAILED]"
  by (simp add: wrap_def split: sum.split)

theorem wrap_original_error_witness:
  "settled (wrap (\<lambda>k st. (Inl (Sdk error_502) :: thrown + unit))
              (Inl (Foreign business_error) :: thrown + unit))
     = Inl (Foreign business_error)
   \<and> reported (wrap (\<lambda>k st. (Inl (Sdk error_502) :: thrown + unit))
              (Inl (Foreign business_error) :: thrown + unit))
     = [FAILED]"
  by (rule wrap_original_error)

end
